theory Spec2Isabelle
  imports Complex_Main "HOL-Library.Word"
begin

section \<open>JavaScript values used by the quiz application\<close>

text \<open>
  Text is modelled as \<^typ>\<open>string\<close>, so a character is a code unit below 256. The white
  space that \<open>String.prototype.trim\<close> strips is, within that range, TAB, LF, VT, FF, CR,
  SPACE and NBSP. The test \<open>!s.trim()\<close> of the source is \<open>js_trim s = []\<close>.
\<close>

definition WhiteSpace :: "char \<Rightarrow> bool" where
  "WhiteSpace c =
     (c \<in> set [CHR 0x09, CHR 0x0A, CHR 0x0B, CHR 0x0C, CHR 0x0D, CHR 0x20, CHR 0xA0])"

definition js_trim :: "string \<Rightarrow> string" where
  "js_trim s = rev (dropWhile WhiteSpace (rev (dropWhile WhiteSpace s)))"

definition startsWith :: "string \<Rightarrow> string \<Rightarrow> bool" where
  "startsWith s p = (take (length p) s = p)"

text \<open>
  Reading \<open>xs[i]\<close> outside the array gives \<open>undefined\<close>: \<open>None\<close> here.
  \<open>xs.splice(i, 1)\<close> removes the element at \<open>i\<close>, and nothing when \<open>i\<close> is not a
  position of the array. Indices are the non-negative integers the views pass.
\<close>

definition nth_opt :: "'a list \<Rightarrow> nat \<Rightarrow> 'a option" where
  "nth_opt xs i = (if i < length xs then Some (xs ! i) else None)"

definition splice1 :: "nat \<Rightarrow> 'a list \<Rightarrow> 'a list" where
  "splice1 i xs = take i xs @ drop (Suc i) xs"

text \<open>
  What a handler can end in besides a new state. \<open>TypeError\<close> is the exception of reading
  a property of \<open>undefined\<close>. \<open>OutsideModel\<close> marks a write past the end of an array: the
  source would leave a hole or an \<open>undefined\<close> element there, which the declared types
  \<open>string[]\<close> and \<open>Question[]\<close> do not describe, and the model stops.
\<close>

datatype fault = TypeError | OutsideModel

section \<open>Data model (types/database.ts)\<close>

text \<open>
  \<open>draft_question\<close> is \<open>Omit<Question, 'id' | 'quiz_id'>\<close>, the element type of the create
  flow; \<open>question\<close> extends it to \<open>Question\<close>. Functions over
  \<open>'a draft_question_scheme\<close> apply to both. In a \<open>response\<close>, \<open>score\<close> and
  \<open>total_questions\<close> are \<open>integer\<close> columns of the table: 32 bits, read as signed.
\<close>

record draft_question =
  question_text :: string
  options :: "string list"
  correct_answer :: string
  order_index :: int

record question = draft_question +
  question_id :: string
  quiz_id :: string

record response =
  response_id :: string
  response_quiz_id :: string
  student_name :: string
  student_email :: string
  student_register_number :: string
  response_answers :: "string list"
  response_score :: "32 word"
  total_questions :: "32 word"
  submitted_at :: string

section \<open>Quiz authoring: the question list (CreateQuiz.tsx, EditQuiz.tsx)\<close>

text \<open>
  \<open>removeQuestion\<close> and \<open>moveQuestion\<close> build a new array of new objects
  (\<open>{ ...q, order_index: i }\<close>) and mutate nothing that is shared, so they are functions
  on the list of question values.
\<close>

definition renumber :: "'a draft_question_scheme list \<Rightarrow> 'a draft_question_scheme list" where
  \<comment> \<open>\<open>xs.map((q, i) => ({ ...q, order_index: i }))\<close>\<close>
  "renumber xs = map (\<lambda>(i, q). q\<lparr>order_index := int i\<rparr>) (enumerate 0 xs)"

definition filter_index :: "(nat \<Rightarrow> bool) \<Rightarrow> 'a list \<Rightarrow> 'a list" where
  \<comment> \<open>\<open>xs.filter((_, i) => p(i))\<close>\<close>
  "filter_index p xs = map snd (filter (\<lambda>(i, x). p i) (enumerate 0 xs))"

definition CreateQuiz_removeQuestion ::
  "nat \<Rightarrow> 'a draft_question_scheme list \<Rightarrow> 'a draft_question_scheme list" where
  "CreateQuiz_removeQuestion index questions =
     (if length questions = 1 then questions
      else let newQuestions = filter_index (\<lambda>i. i \<noteq> index) questions
           in renumber newQuestions)"

datatype direction = Up | Down

text \<open>
  \<open>moveQuestion\<close> is the same text in CreateQuiz.tsx and in EditQuiz.tsx. The guard on
  \<open>newIndex\<close> returns without a state update. With \<open>index = questions.length\<close> and
  direction up the swap would write past the end of the copy: \<open>OutsideModel\<close>.
\<close>

definition moveQuestion ::
  "nat \<Rightarrow> direction \<Rightarrow> 'a draft_question_scheme list \<Rightarrow> fault + 'a draft_question_scheme list" where
  "moveQuestion index dir questions =
     (let newQuestions = questions;
          newIndex = (case dir of Up \<Rightarrow> int index - 1 | Down \<Rightarrow> int index + 1)
      in if newIndex < 0 \<or> newIndex \<ge> int (length newQuestions) then Inr questions
         else if index \<ge> length newQuestions then Inl OutsideModel
         else Inr (renumber
                (newQuestions[index := newQuestions ! nat newIndex,
                              nat newIndex := newQuestions ! index])))"

definition well_indexed :: "'a draft_question_scheme list \<Rightarrow> bool" where
  \<comment> \<open>every question's \<open>order_index\<close> is its array position: 0..N-1 in order\<close>
  "well_indexed qs = (\<forall>i < length qs. order_index (qs ! i) = int i)"

text \<open>
  The question list of the create flow over a session. It starts as one empty question
  numbered 0, and \<open>addQuestion\<close> appends an empty question numbered by the length.
  The remaining handlers (\<open>updateQuestion\<close> with the field \<open>question_text\<close> or
  \<open>correct_answer\<close>, \<open>addOption\<close>, \<open>removeOption\<close>, \<open>updateOption\<close>) change the text, the
  options or the correct answer of the question at one position and nothing else;
  \<open>EditFields\<close> stands for all of them, with any new values. The buttons exist per
  rendered question, so positions are below the length.
\<close>

definition CreateQuiz_initial :: "draft_question list" where
  "CreateQuiz_initial =
     [\<lparr>question_text = [], options = [[], []], correct_answer = [], order_index = 0\<rparr>]"

definition CreateQuiz_addQuestion :: "draft_question list \<Rightarrow> draft_question list" where
  "CreateQuiz_addQuestion questions =
     questions @ [\<lparr>question_text = [], options = [[], []], correct_answer = [],
                   order_index = int (length questions)\<rparr>]"

datatype create_event =
    AddQuestion
  | RemoveQuestionAt nat
  | MoveQuestionAt nat direction
  | EditFields nat string "string list" string

fun create_step :: "create_event \<Rightarrow> draft_question list \<Rightarrow> draft_question list" where
  "create_step AddQuestion qs = CreateQuiz_addQuestion qs"
| "create_step (RemoveQuestionAt i) qs = CreateQuiz_removeQuestion i qs"
| "create_step (MoveQuestionAt i d) qs =
     (case moveQuestion i d qs of Inl e \<Rightarrow> qs | Inr qs' \<Rightarrow> qs')"
| "create_step (EditFields i t os c) qs =
     (if i < length qs
      then qs[i := (qs ! i)\<lparr>question_text := t, options := os, correct_answer := c\<rparr>]
      else qs)"

definition create_run :: "create_event list \<Rightarrow> draft_question list" where
  "create_run es = fold create_step es CreateQuiz_initial"

section \<open>Quiz authoring: options of a question\<close>

text \<open>
  \<open>removeOption\<close> and \<open>updateOption\<close> copy the array (\<open>[...questions]\<close>) but not the
  question objects, and then mutate the object \<open>newQuestions[questionIndex]\<close>, which is
  the object \<open>questions[questionIndex]\<close>. The model keeps that sharing: a store maps the
  address of a question object to its value, and an array of questions is a list of
  addresses. \<open>snapshot\<close> reads the question values of a state.
\<close>

type_synonym addr = nat

type_synonym 'a authoring = "(addr \<Rightarrow> 'a draft_question_scheme) \<times> addr list"

definition snapshot :: "'a authoring \<Rightarrow> 'a draft_question_scheme list" where
  "snapshot st = map (fst st) (snd st)"

definition CreateQuiz_removeOption ::
  "nat \<Rightarrow> nat \<Rightarrow> 'a authoring \<Rightarrow> fault + 'a authoring" where
  "CreateQuiz_removeOption questionIndex optionIndex st =
     (let h = fst st; questions = snd st in
      case nth_opt questions questionIndex of
        None \<Rightarrow> Inl TypeError
      | Some a \<Rightarrow>
          if length (options (h a)) \<le> 2 then Inr st
          else let newQuestions = questions;
                   h1 = h(a := (h a)\<lparr>options := splice1 optionIndex (options (h a))\<rparr>);
                   \<comment> \<open>read after the splice, through \<open>questions\<close>, in the mutated store\<close>
                   h2 = (if Some (correct_answer (h1 a)) =
                            nth_opt (options (h1 (questions ! questionIndex))) optionIndex
                         then h1(a := (h1 a)\<lparr>correct_answer := ''''\<rparr>)
                         else h1)
               in Inr (h2, newQuestions))"

definition EditQuiz_removeOption ::
  "nat \<Rightarrow> nat \<Rightarrow> 'a authoring \<Rightarrow> fault + 'a authoring" where
  "EditQuiz_removeOption questionIndex optionIndex st =
     (let h = fst st; questions = snd st in
      case nth_opt questions questionIndex of
        None \<Rightarrow> Inl TypeError
      | Some a \<Rightarrow>
          if length (options (h a)) \<le> 2 then Inr st
          else let newQuestions = questions;
                   \<comment> \<open>read before the splice\<close>
                   removedOption = nth_opt (options (h a)) optionIndex;
                   h1 = h(a := (h a)\<lparr>options := splice1 optionIndex (options (h a))\<rparr>);
                   h2 = (if Some (correct_answer (h1 a)) = removedOption
                         then h1(a := (h1 a)\<lparr>correct_answer := ''''\<rparr>)
                         else h1)
               in Inr (h2, newQuestions))"

text \<open>
  \<open>arr[i] = v\<close> replaces an element, appends when \<open>i\<close> is the length, and would leave
  holes beyond that.
\<close>

definition array_set :: "nat \<Rightarrow> 'a \<Rightarrow> 'a list \<Rightarrow> fault + 'a list" where
  "array_set i v xs =
     (if i < length xs then Inr (xs[i := v])
      else if i = length xs then Inr (xs @ [v])
      else Inl OutsideModel)"

definition CreateQuiz_updateOption ::
  "nat \<Rightarrow> nat \<Rightarrow> string \<Rightarrow> 'a authoring \<Rightarrow> fault + 'a authoring" where
  "CreateQuiz_updateOption questionIndex optionIndex v st =
     (let h = fst st; questions = snd st; newQuestions = questions in
      case nth_opt newQuestions questionIndex of
        None \<Rightarrow> Inl TypeError
      | Some a \<Rightarrow>
          (case array_set optionIndex v (options (h a)) of
             Inl e \<Rightarrow> Inl e
           | Inr opts \<Rightarrow> Inr (h(a := (h a)\<lparr>options := opts\<rparr>), newQuestions)))"

definition EditQuiz_updateOption ::
  "nat \<Rightarrow> nat \<Rightarrow> string \<Rightarrow> 'a authoring \<Rightarrow> fault + 'a authoring" where
  "EditQuiz_updateOption questionIndex optionIndex v st =
     (let h = fst st; questions = snd st; newQuestions = questions in
      case nth_opt newQuestions questionIndex of
        None \<Rightarrow> Inl TypeError
      | Some a \<Rightarrow>
          let oldValue = nth_opt (options (h a)) optionIndex in
          (case array_set optionIndex v (options (h a)) of
             Inl e \<Rightarrow> Inl e
           | Inr opts \<Rightarrow>
               let h1 = h(a := (h a)\<lparr>options := opts\<rparr>);
                   h2 = (if Some (correct_answer (h1 a)) = oldValue
                         then h1(a := (h1 a)\<lparr>correct_answer := v\<rparr>)
                         else h1)
               in Inr (h2, newQuestions)))"

section \<open>Quiz authoring: validation\<close>

text \<open>
  \<open>validateForm\<close> is the same text in both flows. Each \<open>alert\<close> followed by
  \<open>return false\<close> is a failure value carrying the loop index \<open>i\<close> (the message shows
  \<open>i + 1\<close>); \<open>return true\<close> is \<open>None\<close>.
\<close>

datatype validation_failure =
    TitleMissing
  | QuestionTextMissing nat
  | OptionMissing nat
  | CorrectAnswerMissing nat
  | CorrectAnswerNotAnOption nat

fun validate_from :: "nat \<Rightarrow> 'a draft_question_scheme list \<Rightarrow> validation_failure option" where
  "validate_from i [] = None"
| "validate_from i (question # rest) =
     (if js_trim (question_text question) = [] then Some (QuestionTextMissing i)
      else if list_ex (\<lambda>option. js_trim option = []) (options question)
        then Some (OptionMissing i)
      else if js_trim (correct_answer question) = [] then Some (CorrectAnswerMissing i)
      else if correct_answer question \<notin> set (options question)
        then Some (CorrectAnswerNotAnOption i)
      else validate_from (Suc i) rest)"

definition validateForm ::
  "string \<Rightarrow> 'a draft_question_scheme list \<Rightarrow> validation_failure option" where
  "validateForm title questions =
     (if js_trim title = [] then Some TitleMissing else validate_from 0 questions)"

text \<open>
  The four rules on one question, as the specification lists them: (b) the text, (c)
  every option, (d) the correct answer are not blank, and (e) the correct answer is one
  of the options.
\<close>

definition question_valid :: "'a draft_question_scheme \<Rightarrow> bool" where
  "question_valid q \<longleftrightarrow>
     js_trim (question_text q) \<noteq> []
     \<and> (\<forall>option \<in> set (options q). js_trim option \<noteq> [])
     \<and> js_trim (correct_answer q) \<noteq> []
     \<and> correct_answer q \<in> set (options q)"

text \<open>
  The order of the specification's sentence on \<open>validate()\<close>, taken rule by rule over
  the whole quiz: rule (a), then rule (b) on every question, then rule (c) on every
  question, and so on. It is not a translation of the source; it is what
  \<open>validateForm\<close> is compared with.
\<close>

definition first_index :: "('a \<Rightarrow> bool) \<Rightarrow> 'a list \<Rightarrow> nat option" where
  "first_index P xs = map_option fst (find (\<lambda>(i, x). P x) (enumerate 0 xs))"

definition validate_by_rule_order ::
  "string \<Rightarrow> 'a draft_question_scheme list \<Rightarrow> validation_failure option" where
  "validate_by_rule_order title qs =
     (if js_trim title = [] then Some TitleMissing
      else case first_index (\<lambda>q. js_trim (question_text q) = []) qs of
        Some i \<Rightarrow> Some (QuestionTextMissing i)
      | None \<Rightarrow>
     (case first_index (\<lambda>q. \<exists>option \<in> set (options q). js_trim option = []) qs of
        Some i \<Rightarrow> Some (OptionMissing i)
      | None \<Rightarrow>
     (case first_index (\<lambda>q. js_trim (correct_answer q) = []) qs of
        Some i \<Rightarrow> Some (CorrectAnswerMissing i)
      | None \<Rightarrow>
     (case first_index (\<lambda>q. correct_answer q \<notin> set (options q)) qs of
        Some i \<Rightarrow> Some (CorrectAnswerNotAnOption i)
      | None \<Rightarrow> None))))"

section \<open>Editing a stored quiz: removing a question (EditQuiz.tsx)\<close>

text \<open>
  The edit flow holds the loaded questions in component state and talks to the
  \<open>questions\<close> table of the data store. The store is an external collaborator; what it
  does with the one request \<open>removeQuestion\<close> sends is the \<open>reply\<close>: it deletes the rows
  (\<open>Performed\<close>), answers with an error object that the source does not inspect
  (\<open>Refused\<close>), or the awaited call throws (\<open>Thrown\<close>).
\<close>

record edit_session =
  questions_state :: "question list"
  questions_table :: "question list"

datatype reply = Performed | Refused | Thrown

definition delete_eq_id :: "string \<Rightarrow> question list \<Rightarrow> question list" where
  \<comment> \<open>Modelled from the spec: delete-by-id of the data store (section 6), which is not
      part of the repository: the rows with that id are gone, the others stay.\<close>
  "delete_eq_id i rows = filter (\<lambda>r. question_id r \<noteq> i) rows"

definition EditQuiz_removeQuestion :: "nat \<Rightarrow> reply \<Rightarrow> edit_session \<Rightarrow> fault + edit_session" where
  "EditQuiz_removeQuestion index rep s =
     (let questions = questions_state s in
      if length questions = 1 then Inr s
      else case nth_opt questions index of
        None \<Rightarrow> Inl TypeError
      | Some question \<Rightarrow>
          let local = renumber (filter_index (\<lambda>i. i \<noteq> index) questions) in
          if \<not> startsWith (question_id question) ''temp-'' then
            (case rep of
               Thrown \<Rightarrow> Inr s
             | Refused \<Rightarrow> Inr (s\<lparr>questions_state := local\<rparr>)
             | Performed \<Rightarrow>
                 Inr (s\<lparr>questions_table := delete_eq_id (question_id question) (questions_table s),
                        questions_state := local\<rparr>))
          else Inr (s\<lparr>questions_state := local\<rparr>))"

text \<open>
  An editing session that never saves: every other handler of the page
  (\<open>addQuestion\<close>, \<open>moveQuestion\<close>, \<open>updateQuestion\<close>, \<open>addOption\<close>, \<open>removeOption\<close>,
  \<open>updateOption\<close>) only calls \<open>setQuestions\<close>, so it is some function on the component
  state; \<open>removeQuestion\<close> is the only one that reaches the store. A handler that throws
  leaves the session as it was.
\<close>

datatype edit_event = SetQuestions "question list \<Rightarrow> question list" | RemoveQuestion nat reply

fun edit_step :: "edit_event \<Rightarrow> edit_session \<Rightarrow> edit_session" where
  "edit_step (SetQuestions f) s = s\<lparr>questions_state := f (questions_state s)\<rparr>"
| "edit_step (RemoveQuestion index rep) s =
     (case EditQuiz_removeQuestion index rep s of Inl e \<Rightarrow> s | Inr s' \<Rightarrow> s')"

definition edit_run :: "edit_event list \<Rightarrow> edit_session \<Rightarrow> edit_session" where
  "edit_run es s = fold edit_step es s"

section \<open>Results of a quiz (QuizResults.tsx)\<close>

text \<open>
  A number is an IEEE 754 binary64 value: a finite one is the rational it denotes, and
  the three others are kept apart. The sign of zero is not modelled. Every arithmetic
  operation returns the double nearest to the exact result, ties to the even
  significand: \<open>fl\<close>. For \<open>x \<noteq> 0\<close> the doubles around \<open>x\<close> are the multiples of \<open>2^e\<close>,
  where \<open>e\<close> is the binary exponent of \<open>x\<close> less 52 and at least \<open>-1074\<close> (the subnormal
  spacing); a result of size \<open>2^1024\<close> or more is an infinity.
\<close>

datatype 'a js = Num 'a | Infinity | NegInfinity | NaN

fun bits :: "nat \<Rightarrow> nat" where
  \<comment> \<open>the number of binary digits of \<open>n\<close>\<close>
  "bits n = (if n = 0 then 0 else Suc (bits (n div 2)))"

declare bits.simps [simp del]

definition floor_log2 :: "rat \<Rightarrow> int" where
  \<comment> \<open>for \<open>x > 0\<close>, the \<open>k\<close> with \<open>2^k \<le> x < 2^(k+1)\<close>\<close>
  "floor_log2 x =
     (if x \<ge> 1 then int (bits (nat \<lfloor>x\<rfloor>)) - 1
      else - int (bits (nat (\<lceil>1 / x\<rceil> - 1))))"

definition pow2 :: "int \<Rightarrow> rat" where
  "pow2 e = (if e \<ge> 0 then 2 ^ nat e else 1 / 2 ^ nat (- e))"

definition round_even :: "rat \<Rightarrow> int" where
  "round_even x =
     (let f = \<lfloor>x\<rfloor>; d = x - of_int f
      in if d < 1 / 2 then f else if d > 1 / 2 then f + 1 else if even f then f else f + 1)"

definition fl :: "rat \<Rightarrow> rat js" where
  "fl x =
     (if x = 0 then Num 0
      else let e = max (floor_log2 \<bar>x\<bar> - 52) (- 1074);
               y = of_int (round_even (x / pow2 e)) * pow2 e
           in if \<bar>y\<bar> \<ge> pow2 1024 then (if x > 0 then Infinity else NegInfinity)
              else Num y)"

text \<open>
  The operations of the page. Their right operand is always a finite number: a score, a
  length, a stored total, 10 or 100. A zero divisor is a length or a stored total, the
  positive zero.
\<close>

fun js_add :: "rat js \<Rightarrow> rat \<Rightarrow> rat js" where
  "js_add (Num a) b = fl (a + b)"
| "js_add v b = v"

fun js_mul :: "rat js \<Rightarrow> rat \<Rightarrow> rat js" where
  "js_mul (Num a) b = fl (a * b)"
| "js_mul Infinity b = (if b > 0 then Infinity else if b < 0 then NegInfinity else NaN)"
| "js_mul NegInfinity b = (if b > 0 then NegInfinity else if b < 0 then Infinity else NaN)"
| "js_mul NaN b = NaN"

fun js_div :: "rat js \<Rightarrow> rat \<Rightarrow> rat js" where
  "js_div (Num a) b =
     (if b \<noteq> 0 then fl (a / b)
      else if a > 0 then Infinity else if a < 0 then NegInfinity else NaN)"
| "js_div Infinity b = (if b \<ge> 0 then Infinity else NegInfinity)"
| "js_div NegInfinity b = (if b \<ge> 0 then NegInfinity else Infinity)"
| "js_div NaN b = NaN"

text \<open>
  \<open>Math.round\<close> gives the integer nearest to its argument, the upper one of two equally
  near: no rounding error is involved. \<open>number\<close> reads its result as a number again.
\<close>

definition round_half_up :: "rat \<Rightarrow> int" where
  "round_half_up x = \<lfloor>x + 1 / 2\<rfloor>"

fun Math_round :: "rat js \<Rightarrow> int js" where
  "Math_round (Num x) = Num (round_half_up x)"
| "Math_round Infinity = Infinity"
| "Math_round NegInfinity = NegInfinity"
| "Math_round NaN = NaN"

fun number :: "int js \<Rightarrow> rat js" where
  "number (Num i) = Num (of_int i)"
| "number Infinity = Infinity"
| "number NegInfinity = NegInfinity"
| "number NaN = NaN"

record stats =
  averageScore :: "rat js"
  totalResponses :: nat
  averagePercentage :: "int js"

definition calculateStats :: "response list \<Rightarrow> 'q list \<Rightarrow> stats" where
  "calculateStats responses questions =
     (if length responses = 0
      then \<lparr>averageScore = Num 0, totalResponses = 0, averagePercentage = Num 0\<rparr>
      else
        let totalScore =
              foldl (\<lambda>sum response. js_add sum (of_int (sint (response_score response))))
                (Num 0) responses;
            averageScore = js_div totalScore (of_nat (length responses));
            averagePercentage = js_mul (js_div averageScore (of_nat (length questions))) 100
        in \<lparr>averageScore = js_div (number (Math_round (js_mul averageScore 10))) 10,
            totalResponses = length responses,
            averagePercentage = Math_round averagePercentage\<rparr>)"

text \<open>
  Text of a number in a template literal: the decimal digits of an integer below
  \<open>10^21\<close> in size, which a stored score and a percentage of stored values are.
\<close>

fun string_of_nat :: "nat \<Rightarrow> string" where
  "string_of_nat n =
     (if n < 10 then [''0123456789'' ! n]
      else string_of_nat (n div 10) @ [''0123456789'' ! (n mod 10)])"

declare string_of_nat.simps [simp del]

definition string_of_int :: "int \<Rightarrow> string" where
  "string_of_int i = (if i < 0 then CHR ''-'' # string_of_nat (nat (- i)) else string_of_nat (nat i))"

fun toString :: "int js \<Rightarrow> string" where
  "toString (Num i) = string_of_int i"
| "toString Infinity = ''Infinity''"
| "toString NegInfinity = ''-Infinity''"
| "toString NaN = ''NaN''"

fun join :: "string \<Rightarrow> string list \<Rightarrow> string" where
  "join sep [] = []"
| "join sep [x] = x"
| "join sep (x # y # ys) = x @ sep @ join sep (y # ys)"

datatype cell = CString string | CNumber int

fun cell_text :: "cell \<Rightarrow> string" where
  "cell_text (CString s) = s"
| "cell_text (CNumber n) = string_of_int n"

definition csv_headers :: "'q list \<Rightarrow> string list" where
  "csv_headers questions =
     [''Student Name'', ''Email'', ''Score'', ''Percentage'', ''Submitted At'']
     @ map (\<lambda>index. ''Question '' @ string_of_nat (index + 1)) [0 ..< length questions]"

definition csv_row :: "(string \<Rightarrow> string) \<Rightarrow> response \<Rightarrow> cell list" where
  \<comment> \<open>\<open>toLocaleString\<close> is \<open>new Date(_).toLocaleString()\<close>, which depends on the
      browser's locale and is a parameter.\<close>
  "csv_row toLocaleString response =
     (let percentage =
            Math_round (js_mul (js_div (Num (of_int (sint (response_score response))))
                                       (of_int (sint (total_questions response)))) 100)
      in [CString (student_name response),
          CString (student_email response),
          CNumber (sint (response_score response)),
          CString (toString percentage @ ''%''),
          CString (toLocaleString (submitted_at response))]
         @ map CString (response_answers response))"

definition exportToCSV ::
  "(string \<Rightarrow> string) \<Rightarrow> response list \<Rightarrow> 'q list \<Rightarrow> string option" where
  \<comment> \<open>\<open>None\<close>: the alert and the early return; \<open>Some csvContent\<close>: the text put in the
      downloaded file.\<close>
  "exportToCSV toLocaleString responses questions =
     (if length responses = 0 then None
      else
        let headers = csv_headers questions;
            rows = map (csv_row toLocaleString) responses;
            csvContent =
              join [CHR 0x0A]
                (join '','' headers
                 # map (\<lambda>row. join '','' (map (\<lambda>cell. [CHR 0x22] @ cell_text cell @ [CHR 0x22]) row))
                     rows)
        in Some csvContent)"

section \<open>Taking a quiz (TakeQuiz.tsx)\<close>

text \<open>
  The loop of \<open>calculateScore\<close> runs \<open>i\<close> over the positions of \<open>questions\<close>;
  \<open>answers[i]\<close> is \<open>undefined\<close>, and equal to no text, where \<open>answers\<close> is shorter.
  \<open>===\<close> on two strings is equality of the texts.
\<close>

fun calculateScore_from ::
  "nat \<Rightarrow> 'a draft_question_scheme list \<Rightarrow> string list \<Rightarrow> nat \<Rightarrow> nat" where
  "calculateScore_from i [] answers correctAnswers = correctAnswers"
| "calculateScore_from i (q # rest) answers correctAnswers =
     calculateScore_from (Suc i) rest answers
       (if nth_opt answers i = Some (correct_answer q)
        then correctAnswers + 1 else correctAnswers)"

definition calculateScore :: "'a draft_question_scheme list \<Rightarrow> string list \<Rightarrow> nat" where
  "calculateScore questions answers = calculateScore_from 0 questions answers 0"

record take_quiz =
  questions :: "question list"
  currentQuestion :: nat
  answers :: "string list"
  studentName :: string
  studentEmail :: string
  submitting :: bool
  submitted :: bool
  score :: nat
  showResults :: bool





text \<open>
  The object literal that \<open>handleSubmit\<close> passes to \<open>insert\<close> is a list of keys with
  their values, in the order written. The \<open>responses\<close> table is the list of the rows
  inserted; whether the store takes a row is the store's decision, \<open>accepts\<close>.
  The \<open>await\<close> is one step of the model.
\<close>

datatype json = JString string | JNumber int | JArray "string list"

type_synonym row = "(string \<times> json) list"

datatype submit_outcome = NameOrEmailMissing | UnansweredQuestion | InsertFailed | ResultsShown

definition handleSubmit ::
  "string \<Rightarrow> (row \<Rightarrow> bool) \<Rightarrow> take_quiz \<times> row list \<Rightarrow> submit_outcome \<times> take_quiz \<times> row list" where
  "handleSubmit quizId accepts w =
     (let s = fst w; responses = snd w in
      if js_trim (studentName s) = [] \<or> js_trim (studentEmail s) = []
        then (NameOrEmailMissing, s, responses)
      else if list_ex (\<lambda>answer. js_trim answer = []) (answers s)
        then (UnansweredQuestion, s, responses)
      else
        let calculatedScore = calculateScore (questions s) (answers s);
            payload =
              [(''quiz_id'', JString quizId),
               (''student_name'', JString (js_trim (studentName s))),
               (''student_email'', JString (js_trim (studentEmail s))),
               (''answers'', JArray (answers s)),
               (''score'', JNumber (int calculatedScore)),
               (''total_questions'', JNumber (int (length (questions s))))]
        in if accepts payload
           then (ResultsShown,
                 s\<lparr>score := calculatedScore, submitted := True, showResults := True,
                   submitting := False\<rparr>,
                 responses @ [payload])
           else (InsertFailed, s\<lparr>submitting := False\<rparr>, responses))"

text \<open>
  \<open>handleSubmit\<close> is suspended at the \<open>await\<close> of the insert, and the page stays live
  until the store answers. \<open>handleSubmit_call\<close> is the handler up to the \<open>await\<close>: the two
  checks, \<open>setSubmitting(true)\<close>, and the score and the object passed to \<open>insert\<close>, both
  computed from the state of the click. \<open>handleSubmit_resume\<close> is the rest, run with the
  store's answer: it sets the score computed at the click and reads no state.
  \<open>handleSubmit\<close> above is the two with nothing in between.
\<close>

definition handleSubmit_call ::
  "string \<Rightarrow> take_quiz \<Rightarrow> (submit_outcome + nat \<times> row) \<times> take_quiz" where
  "handleSubmit_call quizId s =
     (if js_trim (studentName s) = [] \<or> js_trim (studentEmail s) = []
        then (Inl NameOrEmailMissing, s)
      else if list_ex (\<lambda>answer. js_trim answer = []) (answers s)
        then (Inl UnansweredQuestion, s)
      else
        let calculatedScore = calculateScore (questions s) (answers s);
            payload =
              [(''quiz_id'', JString quizId),
               (''student_name'', JString (js_trim (studentName s))),
               (''student_email'', JString (js_trim (studentEmail s))),
               (''answers'', JArray (answers s)),
               (''score'', JNumber (int calculatedScore)),
               (''total_questions'', JNumber (int (length (questions s))))]
        in (Inr (calculatedScore, payload), s\<lparr>submitting := True\<rparr>))"

definition handleSubmit_resume ::
  "bool \<Rightarrow> nat \<times> row \<Rightarrow> take_quiz \<times> row list \<Rightarrow> submit_outcome \<times> take_quiz \<times> row list" where
  "handleSubmit_resume accepted pending w =
     (let s = fst w; responses = snd w; calculatedScore = fst pending; payload = snd pending
      in if accepted
         then (ResultsShown,
               s\<lparr>score := calculatedScore, submitted := True, showResults := True,
                 submitting := False\<rparr>,
               responses @ [payload])
         else (InsertFailed, s\<lparr>submitting := False\<rparr>, responses))"










section \<open>Properties of the option handlers\<close>

lemma nth_opt_Some_iff: "nth_opt xs i = Some x \<longleftrightarrow> i < length xs \<and> xs ! i = x"
  by (auto simp: nth_opt_def)

lemma nth_opt_None_iff: "nth_opt xs i = None \<longleftrightarrow> length xs \<le> i"
  by (auto simp: nth_opt_def)

lemma splice1_length: "i < length xs \<Longrightarrow> length (splice1 i xs) = length xs - 1"
  by (simp add: splice1_def)

lemma splice1_nth_after: "i < length xs \<Longrightarrow> Suc i < length xs \<Longrightarrow> splice1 i xs ! i = xs ! Suc i"
  by (simp add: splice1_def nth_append)

text \<open>
  The edit flow reads the removed option before the splice: the correct answer is
  cleared exactly when it was the text of the removed option.
\<close>

lemma EditQuiz_removeOption_clears:
  assumes "nth_opt qs qi = Some a" and "2 < length (options (h a))"
    and "nth_opt (options (h a)) oi = Some removed"
  shows "\<exists>h'. EditQuiz_removeOption qi oi (h, qs) = Inr (h', qs)
           \<and> options (h' a) = splice1 oi (options (h a))
           \<and> correct_answer (h' a) = (if correct_answer (h a) = removed then [] else correct_answer (h a))"
  using assms by (simp add: EditQuiz_removeOption_def Let_def)

text \<open>
  The create flow reads \<open>questions[questionIndex].options[optionIndex]\<close> after the
  splice, and through the same object: it compares the correct answer with the option
  that followed the removed one, or with \<open>undefined\<close> when the last option was removed.
\<close>

lemma CreateQuiz_removeOption_compares_next:
  assumes "nth_opt qs qi = Some a" and "2 < length (options (h a))"
    and "oi < length (options (h a))"
  shows "\<exists>h'. CreateQuiz_removeOption qi oi (h, qs) = Inr (h', qs)
           \<and> options (h' a) = splice1 oi (options (h a))
           \<and> correct_answer (h' a) =
               (if nth_opt (options (h a)) (Suc oi) = Some (correct_answer (h a))
                then [] else correct_answer (h a))"
proof -
  from assms(1) have qi: "qi < length qs" "qs ! qi = a"
    by (simp_all add: nth_opt_Some_iff)
  have "nth_opt (splice1 oi (options (h a))) oi = nth_opt (options (h a)) (Suc oi)"
    using assms(3) by (auto simp: nth_opt_def splice1_length splice1_nth_after)
  then show ?thesis
    using assms qi by (simp add: CreateQuiz_removeOption_def Let_def)
qed

text \<open>
  C1. \<open>removeOption\<close> on a question with more than two options is claimed to clear
  \<open>correct_answer\<close> exactly when the removed option was the correct answer, in both
  flows. The create flow does not: removing option \<open>A\<close> from the options \<open>A, B, C\<close> of a
  question whose correct answer is \<open>A\<close> leaves the options \<open>B, C\<close> and the correct answer
  \<open>A\<close>, which is no longer an option. The edit flow, on the same state, clears it.
\<close>

theorem CreateQuiz_removeOption_stale_correct_answer:
  "(case CreateQuiz_removeOption 0 0
          (\<lambda>_. \<lparr>question_text = ''q'', options = [''A'', ''B'', ''C''],
                 correct_answer = ''A'', order_index = 0\<rparr>, [0])
    of Inl e \<Rightarrow> [] | Inr st \<Rightarrow> snapshot st)
   = [\<lparr>question_text = ''q'', options = [''B'', ''C''], correct_answer = ''A'', order_index = 0\<rparr>]
   \<and>
   (case EditQuiz_removeOption 0 0
          (\<lambda>_. \<lparr>question_text = ''q'', options = [''A'', ''B'', ''C''],
                 correct_answer = ''A'', order_index = 0\<rparr>, [0])
    of Inl e \<Rightarrow> [] | Inr st \<Rightarrow> snapshot st)
   = [\<lparr>question_text = ''q'', options = [''B'', ''C''], correct_answer = '''', order_index = 0\<rparr>]"
  by (simp add: CreateQuiz_removeOption_def EditQuiz_removeOption_def nth_opt_def splice1_def
      snapshot_def)

text \<open>
  C9. The two \<open>updateOption\<close> handlers are not the same function. Whenever the option
  at \<open>optionIndex\<close> of the question at \<open>questionIndex\<close> is its correct answer, both
  replace the option text by the new text, the create flow leaves \<open>correct_answer\<close> as
  it was and the edit flow sets it to the new text; the two results differ as soon as
  the new text differs from the old one.
\<close>

theorem updateOption_create_edit_differ:
  assumes "nth_opt qs qi = Some a" and "nth_opt (options (h a)) oi = Some old"
    and "correct_answer (h a) = old"
  shows "\<exists>h1 h2. CreateQuiz_updateOption qi oi v (h, qs) = Inr (h1, qs)
           \<and> EditQuiz_updateOption qi oi v (h, qs) = Inr (h2, qs)
           \<and> options (h1 a) = (options (h a))[oi := v]
           \<and> options (h2 a) = (options (h a))[oi := v]
           \<and> correct_answer (h1 a) = old
           \<and> correct_answer (h2 a) = v
           \<and> (v \<noteq> old \<longrightarrow>
                CreateQuiz_updateOption qi oi v (h, qs) \<noteq> EditQuiz_updateOption qi oi v (h, qs))"
proof -
  from assms(2) have oi: "oi < length (options (h a))" and old: "options (h a) ! oi = old"
    by (simp_all add: nth_opt_Some_iff)
  let ?opts = "(options (h a))[oi := v]"
  let ?h1 = "h(a := (h a)\<lparr>options := ?opts\<rparr>)"
  let ?h2 = "?h1(a := (?h1 a)\<lparr>correct_answer := v\<rparr>)"
  have c: "CreateQuiz_updateOption qi oi v (h, qs) = Inr (?h1, qs)"
    using assms(1) oi by (simp add: CreateQuiz_updateOption_def array_set_def)
  have e: "EditQuiz_updateOption qi oi v (h, qs) = Inr (?h2, qs)"
    using assms oi by (simp add: EditQuiz_updateOption_def array_set_def Let_def)
  have d: "v \<noteq> old \<Longrightarrow> ?h1 \<noteq> ?h2"
  proof
    assume "v \<noteq> old" and "?h1 = ?h2"
    then have "correct_answer (?h1 a) = correct_answer (?h2 a)" by simp
    with assms(3) \<open>v \<noteq> old\<close> show False by simp
  qed
  show ?thesis
    apply (rule exI[of _ ?h1], rule exI[of _ ?h2])
    using c e d assms(3) by simp
qed

theorem updateOption_create_edit_differ_witness:
  "CreateQuiz_updateOption 0 0 ''Z''
     (\<lambda>_. \<lparr>question_text = ''q'', options = [''A'', ''B''], correct_answer = ''A'',
            order_index = 0\<rparr>, [0])
   \<noteq> EditQuiz_updateOption 0 0 ''Z''
     (\<lambda>_. \<lparr>question_text = ''q'', options = [''A'', ''B''], correct_answer = ''A'',
            order_index = 0\<rparr>, [0])"
  using updateOption_create_edit_differ
    [of "[0]" 0 0
        "\<lambda>_. \<lparr>question_text = ''q'', options = [''A'', ''B''], correct_answer = ''A'',
               order_index = 0\<rparr>"
        0 "''A''" "''Z''"]
  by (auto simp: nth_opt_def)

section \<open>Properties of the question list handlers\<close>

lemma renumber_well_indexed: "well_indexed (renumber xs)"
  unfolding well_indexed_def renumber_def by (simp add: nth_enumerate_eq)

lemma length_renumber: "length (renumber xs) = length xs"
  unfolding renumber_def by simp

lemma renumber_nth: "j < length xs \<Longrightarrow> renumber xs ! j = (xs ! j)\<lparr>order_index := int j\<rparr>"
  unfolding renumber_def by (simp add: nth_enumerate_eq)

lemma filter_enumerate_above:
  "m < n \<Longrightarrow> filter (\<lambda>(j, x). j \<noteq> m) (enumerate n xs) = enumerate n xs"
  by (induction xs arbitrary: n) auto

lemma filter_enumerate_drop:
  "map snd (filter (\<lambda>(j, x). j \<noteq> n + i) (enumerate n xs)) = take i xs @ drop (Suc i) xs"
proof (induction xs arbitrary: n i)
  case Nil
  then show ?case by simp
next
  case (Cons x xs)
  show ?case
  proof (cases i)
    case 0
    then show ?thesis by (simp add: filter_enumerate_above)
  next
    case (Suc k)
    with Cons.IH [of "Suc n" k] show ?thesis by simp
  qed
qed

lemma filter_index_splice: "filter_index (\<lambda>j. j \<noteq> i) xs = splice1 i xs"
  using filter_enumerate_drop [of 0 i xs] by (simp add: filter_index_def splice1_def)

lemma splice1_nth:
  "i < length xs \<Longrightarrow> j < length xs - 1 \<Longrightarrow> splice1 i xs ! j = (if j < i then xs ! j else xs ! Suc j)"
  by (auto simp: splice1_def nth_append min_def)

lemma moveQuestion_well_indexed:
  "well_indexed qs \<Longrightarrow> moveQuestion i d qs = Inr qs' \<Longrightarrow> well_indexed qs'"
  by (auto simp: moveQuestion_def Let_def renumber_well_indexed split: if_splits)

lemma create_step_well_indexed: "well_indexed qs \<Longrightarrow> well_indexed (create_step e qs)"
proof (cases e)
  case AddQuestion
  assume "well_indexed qs"
  with AddQuestion show ?thesis
    by (auto simp: well_indexed_def CreateQuiz_addQuestion_def nth_append)
next
  case (RemoveQuestionAt i)
  assume "well_indexed qs"
  with RemoveQuestionAt show ?thesis
    by (simp add: CreateQuiz_removeQuestion_def renumber_well_indexed)
next
  case (MoveQuestionAt i d)
  assume "well_indexed qs"
  with MoveQuestionAt show ?thesis
    using moveQuestion_well_indexed [of qs i d]
    by (cases "moveQuestion i d qs") auto
next
  case (EditFields i t os c)
  assume "well_indexed qs"
  with EditFields show ?thesis
    by (auto simp: well_indexed_def nth_list_update)
qed

lemma fold_create_step_well_indexed:
  "well_indexed qs \<Longrightarrow> well_indexed (fold create_step es qs)"
  by (induction es arbitrary: qs) (simp_all add: create_step_well_indexed)

lemma create_run_well_indexed: "well_indexed (create_run es)"
  unfolding create_run_def
  by (rule fold_create_step_well_indexed) (simp add: well_indexed_def CreateQuiz_initial_def)

text \<open>
  C8, as claimed: after every \<open>removeQuestion\<close> and every \<open>moveQuestion\<close>, the calls
  that change nothing included, every question's \<open>order_index\<close> is its array position.
  In the edit flow the list is loaded from the store as it is. Removing the second of
  three stored questions deletes its row and leaves the rows numbered 0 and 2; on the
  list loaded from them, \<open>moveQuestion\<close> of the first question upwards returns without
  a state update, and the list is still numbered 0 and 2.
\<close>

theorem moveQuestion_boundary_keeps_loaded_gap:
  "EditQuiz_removeQuestion 1 Performed
     \<lparr>questions_state =
        [\<lparr>question_text = ''one'', options = [''A'', ''B''], correct_answer = ''A'',
          order_index = 0, question_id = ''a1'', quiz_id = ''z''\<rparr>,
         \<lparr>question_text = ''two'', options = [''B'', ''C''], correct_answer = ''B'',
          order_index = 1, question_id = ''b2'', quiz_id = ''z''\<rparr>,
         \<lparr>question_text = ''three'', options = [''C'', ''D''], correct_answer = ''C'',
          order_index = 2, question_id = ''c3'', quiz_id = ''z''\<rparr>],
      questions_table =
        [\<lparr>question_text = ''one'', options = [''A'', ''B''], correct_answer = ''A'',
          order_index = 0, question_id = ''a1'', quiz_id = ''z''\<rparr>,
         \<lparr>question_text = ''two'', options = [''B'', ''C''], correct_answer = ''B'',
          order_index = 1, question_id = ''b2'', quiz_id = ''z''\<rparr>,
         \<lparr>question_text = ''three'', options = [''C'', ''D''], correct_answer = ''C'',
          order_index = 2, question_id = ''c3'', quiz_id = ''z''\<rparr>]\<rparr>
   = Inr \<lparr>questions_state =
        [\<lparr>question_text = ''one'', options = [''A'', ''B''], correct_answer = ''A'',
          order_index = 0, question_id = ''a1'', quiz_id = ''z''\<rparr>,
         \<lparr>question_text = ''three'', options = [''C'', ''D''], correct_answer = ''C'',
          order_index = 1, question_id = ''c3'', quiz_id = ''z''\<rparr>],
      questions_table =
        [\<lparr>question_text = ''one'', options = [''A'', ''B''], correct_answer = ''A'',
          order_index = 0, question_id = ''a1'', quiz_id = ''z''\<rparr>,
         \<lparr>question_text = ''three'', options = [''C'', ''D''], correct_answer = ''C'',
          order_index = 2, question_id = ''c3'', quiz_id = ''z''\<rparr>]\<rparr>
   \<and> moveQuestion 0 Up
        [\<lparr>question_text = ''one'', options = [''A'', ''B''], correct_answer = ''A'',
          order_index = 0, question_id = ''a1'', quiz_id = ''z''\<rparr>,
         \<lparr>question_text = ''three'', options = [''C'', ''D''], correct_answer = ''C'',
          order_index = 2, question_id = ''c3'', quiz_id = ''z''\<rparr>]
     = Inr
        [\<lparr>question_text = ''one'', options = [''A'', ''B''], correct_answer = ''A'',
          order_index = 0, question_id = ''a1'', quiz_id = ''z''\<rparr>,
         \<lparr>question_text = ''three'', options = [''C'', ''D''], correct_answer = ''C'',
          order_index = 2, question_id = ''c3'', quiz_id = ''z''\<rparr>]
   \<and> \<not> well_indexed
        [\<lparr>question_text = ''one'', options = [''A'', ''B''], correct_answer = ''A'',
          order_index = 0, question_id = ''a1'', quiz_id = ''z''\<rparr>,
         \<lparr>question_text = ''three'', options = [''C'', ''D''], correct_answer = ''C'',
          order_index = 2, question_id = ''c3'', quiz_id = ''z''\<rparr>]"
proof -
  let ?a = "\<lparr>question_text = ''one'', options = [''A'', ''B''], correct_answer = ''A'',
          order_index = 0, question_id = ''a1'', quiz_id = ''z''\<rparr>"
  let ?c = "\<lparr>question_text = ''three'', options = [''C'', ''D''], correct_answer = ''C'',
          order_index = 2, question_id = ''c3'', quiz_id = ''z''\<rparr>"
  have "order_index ([?a, ?c] ! 1) \<noteq> int 1" by simp
  then have "\<not> well_indexed [?a, ?c]"
    unfolding well_indexed_def by (metis length_Cons list.size(3) lessI One_nat_def)
  then show ?thesis
    by (simp add: EditQuiz_removeQuestion_def nth_opt_def startsWith_def delete_eq_id_def
        filter_index_splice splice1_def renumber_def moveQuestion_def Let_def)
qed

text \<open>
  C8, amended. Whenever \<open>removeQuestion\<close> or \<open>moveQuestion\<close> changes the list, the
  result is numbered 0..N-1 by position, whatever the numbering was before:
  \<open>removeQuestion\<close> drops the question at \<open>index\<close>, \<open>moveQuestion\<close> swaps the question at
  \<open>index\<close> with its neighbour in the given direction, and both number the result anew.
  \<open>removeQuestion\<close> on a list of one question, and \<open>moveQuestion\<close> across either end of
  the list, return without a state update, so the list, numbering included, is the one
  before the call. Hence a list numbered by position stays so under every call; and in
  the create flow, where the list starts as one question numbered 0, the list after
  every call is numbered by position.
\<close>

theorem question_list_handlers_order_index:
  "(length qs \<noteq> 1 \<longrightarrow> well_indexed (CreateQuiz_removeQuestion i qs))
   \<and> (length qs \<noteq> 1 \<and> i < length qs \<longrightarrow>
        length (CreateQuiz_removeQuestion i qs) = length qs - 1
        \<and> (\<forall>j < length qs - 1. CreateQuiz_removeQuestion i qs ! j =
              (if j < i then qs ! j else qs ! Suc j)\<lparr>order_index := int j\<rparr>))
   \<and> (length qs = 1 \<longrightarrow> CreateQuiz_removeQuestion i qs = qs)
   \<and> (well_indexed qs \<longrightarrow> well_indexed (CreateQuiz_removeQuestion i qs))
   \<and> (i < length qs \<longrightarrow>
        (\<exists>qs'. moveQuestion i d qs = Inr qs'
           \<and> length qs' = length qs
           \<and> (if (d = Up \<and> i = 0) \<or> (d = Down \<and> Suc i = length qs) then qs' = qs
               else well_indexed qs'
                 \<and> (let k = (case d of Up \<Rightarrow> i - 1 | Down \<Rightarrow> Suc i) in
                      qs' ! i = (qs ! k)\<lparr>order_index := int i\<rparr>
                    \<and> qs' ! k = (qs ! i)\<lparr>order_index := int k\<rparr>
                    \<and> (\<forall>j < length qs. j \<noteq> i \<and> j \<noteq> k \<longrightarrow>
                          qs' ! j = (qs ! j)\<lparr>order_index := int j\<rparr>)))
           \<and> (well_indexed qs \<longrightarrow> well_indexed qs')))
   \<and> well_indexed (CreateQuiz_removeQuestion i (create_run es))
   \<and> (\<forall>qs'. moveQuestion i d (create_run es) = Inr qs' \<longrightarrow> well_indexed qs')"
proof -
  have r1: "length qs \<noteq> 1 \<Longrightarrow> well_indexed (CreateQuiz_removeQuestion i qs)"
    by (simp add: CreateQuiz_removeQuestion_def renumber_well_indexed)
  have r2: "length qs = 1 \<Longrightarrow> CreateQuiz_removeQuestion i qs = qs"
    by (simp add: CreateQuiz_removeQuestion_def)
  have r3: "well_indexed qs \<Longrightarrow> well_indexed (CreateQuiz_removeQuestion i qs)"
    using r1 r2 by (cases "length qs = 1") simp_all
  have r4: "length (CreateQuiz_removeQuestion i qs) = length qs - 1
        \<and> (\<forall>j < length qs - 1. CreateQuiz_removeQuestion i qs ! j =
              (if j < i then qs ! j else qs ! Suc j)\<lparr>order_index := int j\<rparr>)"
    if "length qs \<noteq> 1" "i < length qs"
    using that
    by (simp add: CreateQuiz_removeQuestion_def filter_index_splice length_renumber
        splice1_length renumber_nth splice1_nth)
  have m: "\<exists>qs'. moveQuestion i d qs = Inr qs'
           \<and> length qs' = length qs
           \<and> (if (d = Up \<and> i = 0) \<or> (d = Down \<and> Suc i = length qs) then qs' = qs
               else well_indexed qs'
                 \<and> (let k = (case d of Up \<Rightarrow> i - 1 | Down \<Rightarrow> Suc i) in
                      qs' ! i = (qs ! k)\<lparr>order_index := int i\<rparr>
                    \<and> qs' ! k = (qs ! i)\<lparr>order_index := int k\<rparr>
                    \<and> (\<forall>j < length qs. j \<noteq> i \<and> j \<noteq> k \<longrightarrow>
                          qs' ! j = (qs ! j)\<lparr>order_index := int j\<rparr>)))
           \<and> (well_indexed qs \<longrightarrow> well_indexed qs')" if i: "i < length qs"
  proof (cases d)
    case Up
    show ?thesis
    proof (cases "i = 0")
      case True
      with Up i show ?thesis by (simp add: moveQuestion_def)
    next
      case False
      then have n: "nat (int i - 1) = i - 1" by simp
      from False i Up have
        "moveQuestion i d qs = Inr (renumber (qs[i := qs ! (i - 1), i - 1 := qs ! i]))"
        by (simp add: moveQuestion_def n)
      with False i Up show ?thesis
        by (simp add: renumber_well_indexed length_renumber renumber_nth)
    qed
  next
    case Down
    show ?thesis
    proof (cases "Suc i = length qs")
      case True
      with Down i show ?thesis by (auto simp add: moveQuestion_def)
    next
      case False
      have n: "nat (int i + 1) = Suc i" by simp
      from False i Down have
        "moveQuestion i d qs = Inr (renumber (qs[i := qs ! Suc i, Suc i := qs ! i]))"
        by (simp add: moveQuestion_def n)
      with False i Down show ?thesis
        by (simp add: renumber_well_indexed length_renumber renumber_nth)
    qed
  qed
  have c1: "well_indexed (CreateQuiz_removeQuestion i (create_run es))"
    using create_step_well_indexed [OF create_run_well_indexed, of "RemoveQuestionAt i" es]
    by simp
  have c2: "\<forall>qs'. moveQuestion i d (create_run es) = Inr qs' \<longrightarrow> well_indexed qs'"
    using moveQuestion_well_indexed [OF create_run_well_indexed] by blast
  show ?thesis using r1 r2 r3 r4 m c1 c2 by blast
qed


theorem question_list_handlers_order_index_witness:
  "well_indexed [\<lparr>question_text = ''a'', options = [''A'', ''B''], correct_answer = ''A'', order_index = 0\<rparr>,
                 \<lparr>question_text = ''b'', options = [''C'', ''D''], correct_answer = ''D'', order_index = 1\<rparr>]
   \<and> well_indexed (CreateQuiz_removeQuestion 0
        [\<lparr>question_text = ''a'', options = [''A'', ''B''], correct_answer = ''A'', order_index = 0\<rparr>,
         \<lparr>question_text = ''b'', options = [''C'', ''D''], correct_answer = ''D'', order_index = 1\<rparr>])
   \<and> CreateQuiz_removeQuestion 0
        [\<lparr>question_text = ''a'', options = [''A'', ''B''], correct_answer = ''A'', order_index = 0\<rparr>,
         \<lparr>question_text = ''b'', options = [''C'', ''D''], correct_answer = ''D'', order_index = 1\<rparr>] ! 0
       = \<lparr>question_text = ''b'', options = [''C'', ''D''], correct_answer = ''D'', order_index = 0\<rparr>
   \<and> (\<exists>qs'. moveQuestion 0 Down
        [\<lparr>question_text = ''a'', options = [''A'', ''B''], correct_answer = ''A'', order_index = 0\<rparr>,
         \<lparr>question_text = ''b'', options = [''C'', ''D''], correct_answer = ''D'', order_index = 1\<rparr>]
          = Inr qs'
        \<and> well_indexed qs'
        \<and> qs' ! 0 = \<lparr>question_text = ''b'', options = [''C'', ''D''], correct_answer = ''D'', order_index = 0\<rparr>
        \<and> qs' ! 1 = \<lparr>question_text = ''a'', options = [''A'', ''B''], correct_answer = ''A'', order_index = 1\<rparr>)
   \<and> CreateQuiz_removeQuestion 0
        [\<lparr>question_text = ''a'', options = [''A'', ''B''], correct_answer = ''A'', order_index = 0\<rparr>]
       = [\<lparr>question_text = ''a'', options = [''A'', ''B''], correct_answer = ''A'', order_index = 0\<rparr>]
   \<and> moveQuestion 0 Up
        [\<lparr>question_text = ''a'', options = [''A'', ''B''], correct_answer = ''A'', order_index = 0\<rparr>]
       = Inr [\<lparr>question_text = ''a'', options = [''A'', ''B''], correct_answer = ''A'', order_index = 0\<rparr>]
   \<and> well_indexed (CreateQuiz_removeQuestion 0 (create_run [AddQuestion, MoveQuestionAt 0 Down]))"
proof -
  let ?a = "\<lparr>question_text = ''a'', options = [''A'', ''B''], correct_answer = ''A'', order_index = 0\<rparr>"
  let ?b = "\<lparr>question_text = ''b'', options = [''C'', ''D''], correct_answer = ''D'', order_index = 1\<rparr>"
  have w: "well_indexed [?a, ?b]"
    by (simp add: well_indexed_def less_Suc_eq)
  from question_list_handlers_order_index [of "[?a, ?b]" 0 Down "[AddQuestion, MoveQuestionAt 0 Down]"] w
  have two: "well_indexed (CreateQuiz_removeQuestion 0 [?a, ?b])"
    "CreateQuiz_removeQuestion 0 [?a, ?b] ! 0 = ?b\<lparr>order_index := 0\<rparr>"
    "\<exists>qs'. moveQuestion 0 Down [?a, ?b] = Inr qs' \<and> well_indexed qs'
        \<and> qs' ! 0 = ?b\<lparr>order_index := 0\<rparr> \<and> qs' ! 1 = ?a\<lparr>order_index := 1\<rparr>"
    "well_indexed (CreateQuiz_removeQuestion 0 (create_run [AddQuestion, MoveQuestionAt 0 Down]))"
    by auto
  from question_list_handlers_order_index [of "[?a]" 0 Up "[]"]
  have one: "CreateQuiz_removeQuestion 0 [?a] = [?a]" "moveQuestion 0 Up [?a] = Inr [?a]"
    by simp_all
  from w two one show ?thesis by simp
qed

section \<open>Properties of the validation\<close>

lemma list_ex_blank: "list_ex (\<lambda>option. js_trim option = []) xs \<longleftrightarrow> (\<exists>option \<in> set xs. js_trim option = [])"
  by (simp add: list_ex_iff)

lemma validate_from_None:
  "validate_from n qs = None \<longleftrightarrow> (\<forall>q \<in> set qs. question_valid q)"
  by (induction qs arbitrary: n) (auto simp: question_valid_def list_ex_iff)

lemma validate_from_cases:
  "validate_from n qs = Some f \<longleftrightarrow>
     (\<exists>i < length qs. (\<forall>j < i. question_valid (qs ! j)) \<and>
        (let q = qs ! i in
          if js_trim (question_text q) = [] then f = QuestionTextMissing (n + i)
          else if \<exists>option \<in> set (options q). js_trim option = [] then f = OptionMissing (n + i)
          else if js_trim (correct_answer q) = [] then f = CorrectAnswerMissing (n + i)
          else correct_answer q \<notin> set (options q) \<and> f = CorrectAnswerNotAnOption (n + i)))"
proof (induction qs arbitrary: n)
  case Nil
  then show ?case by simp
next
  case (Cons q qs)
  show ?case
  proof (cases "question_valid q")
    case True
    then have "validate_from n (q # qs) = validate_from (Suc n) qs"
      by (simp add: question_valid_def list_ex_iff)
    also have "(validate_from (Suc n) qs = Some f) \<longleftrightarrow> 
       (\<exists>i < length qs. (\<forall>j < i. question_valid (qs ! j)) \<and>
        (let q = qs ! i in
          if js_trim (question_text q) = [] then f = QuestionTextMissing (Suc n + i)
          else if \<exists>option \<in> set (options q). js_trim option = [] then f = OptionMissing (Suc n + i)
          else if js_trim (correct_answer q) = [] then f = CorrectAnswerMissing (Suc n + i)
          else correct_answer q \<notin> set (options q) \<and> f = CorrectAnswerNotAnOption (Suc n + i)))"
      (is "_ \<longleftrightarrow> ?R") by (rule Cons.IH)
    also have "?R \<longleftrightarrow> (\<exists>i < length (q # qs). (\<forall>j < i. question_valid ((q # qs) ! j)) \<and>
        (let q = (q # qs) ! i in
          if js_trim (question_text q) = [] then f = QuestionTextMissing (n + i)
          else if \<exists>option \<in> set (options q). js_trim option = [] then f = OptionMissing (n + i)
          else if js_trim (correct_answer q) = [] then f = CorrectAnswerMissing (n + i)
          else correct_answer q \<notin> set (options q) \<and> f = CorrectAnswerNotAnOption (n + i)))"
      (is "_ \<longleftrightarrow> ?G")
    proof
      assume ?R
      then obtain i where "i < length qs" "\<forall>j < i. question_valid (qs ! j)"
        and "let q = qs ! i in
          if js_trim (question_text q) = [] then f = QuestionTextMissing (Suc n + i)
          else if \<exists>option \<in> set (options q). js_trim option = [] then f = OptionMissing (Suc n + i)
          else if js_trim (correct_answer q) = [] then f = CorrectAnswerMissing (Suc n + i)
          else correct_answer q \<notin> set (options q) \<and> f = CorrectAnswerNotAnOption (Suc n + i)"
        by blast
      with True show ?G
        by (intro exI[of _ "Suc i"]) (auto simp: less_Suc_eq_0_disj Let_def)
    next
      assume ?G
      then obtain i where i: "i < length (q # qs)" "\<forall>j < i. question_valid ((q # qs) ! j)"
        and c: "let q = (q # qs) ! i in
          if js_trim (question_text q) = [] then f = QuestionTextMissing (n + i)
          else if \<exists>option \<in> set (options q). js_trim option = [] then f = OptionMissing (n + i)
          else if js_trim (correct_answer q) = [] then f = CorrectAnswerMissing (n + i)
          else correct_answer q \<notin> set (options q) \<and> f = CorrectAnswerNotAnOption (n + i)"
        by blast
      have "i \<noteq> 0"
      proof
        assume "i = 0"
        with c True show False
          by (auto simp: question_valid_def Let_def split: if_splits)
      qed
      then obtain k where k: "i = Suc k" by (cases i) auto
      with i c show ?R
        by (intro exI[of _ k]) (auto simp: Let_def)
    qed
    finally show ?thesis .
  next
    case False
    have "\<not> (\<forall>j < i. question_valid ((q # qs) ! j))" if "0 < i" for i
      using False that by auto
    then have G: "(\<exists>i < length (q # qs). (\<forall>j < i. question_valid ((q # qs) ! j)) \<and> P i) \<longleftrightarrow> P 0" for P
      by (metis length_greater_0_conv list.distinct(1) not_gr_zero not_less_zero)
    show ?thesis
      unfolding G using False
      by (auto simp: question_valid_def list_ex_iff Let_def)
  qed
qed


text \<open>
  C4, as claimed: the failure reported is that of the first violated rule in the order
  (a) to (e), also when an earlier question violates only a later rule and a later
  question violates an earlier rule. \<open>validateForm\<close> checks question by question
  instead: with a first question whose correct answer is not one of its options (rule e)
  and a second question without text (rule b), it reports rule (e) for the first
  question, where the rule order reports rule (b) for the second.
\<close>

theorem validateForm_not_rule_order:
  "validateForm ''Quiz''
     [\<lparr>question_text = ''first'', options = [''A'', ''B''], correct_answer = ''Z'', order_index = 0\<rparr>,
      \<lparr>question_text = '''', options = [''A'', ''B''], correct_answer = ''A'', order_index = 1\<rparr>]
   = Some (CorrectAnswerNotAnOption 0)
   \<and> validate_by_rule_order ''Quiz''
     [\<lparr>question_text = ''first'', options = [''A'', ''B''], correct_answer = ''Z'', order_index = 0\<rparr>,
      \<lparr>question_text = '''', options = [''A'', ''B''], correct_answer = ''A'', order_index = 1\<rparr>]
   = Some (QuestionTextMissing 1)"
  by (simp add: validateForm_def validate_by_rule_order_def first_index_def js_trim_def WhiteSpace_def
      enumerate_eq_zip upt_rec)

text \<open>
  C4, amended. \<open>validateForm\<close> accepts exactly the quizzes with a title whose
  questions all satisfy the rules (b) to (e). Otherwise it reports the missing title
  first; with a title, it reports the failure of the first question, in array order,
  that violates any rule, and for that question the first violated rule in the order
  (b), (c), (d), (e).
\<close>

theorem validateForm_first_question_first_rule:
  "(validateForm t qs = None \<longleftrightarrow> js_trim t \<noteq> [] \<and> (\<forall>q \<in> set qs. question_valid q))
   \<and> (validateForm t qs = Some f \<longleftrightarrow>
        (if js_trim t = [] then f = TitleMissing
         else \<exists>i < length qs. (\<forall>j < i. question_valid (qs ! j)) \<and>
           (let q = qs ! i in
            if js_trim (question_text q) = [] then f = QuestionTextMissing i
            else if \<exists>option \<in> set (options q). js_trim option = [] then f = OptionMissing i
            else if js_trim (correct_answer q) = [] then f = CorrectAnswerMissing i
            else correct_answer q \<notin> set (options q) \<and> f = CorrectAnswerNotAnOption i)))"
  using validate_from_None [of 0 qs] validate_from_cases [of 0 qs f]
  by (auto simp: validateForm_def)

theorem validateForm_first_question_first_rule_witness:
  "validateForm ''Quiz''
     [\<lparr>question_text = ''first'', options = [''A'', ''B''], correct_answer = ''Z'', order_index = 0\<rparr>,
      \<lparr>question_text = '''', options = [''A'', ''B''], correct_answer = ''A'', order_index = 1\<rparr>]
   = Some (CorrectAnswerNotAnOption 0)
   \<and> validateForm ''Quiz''
     [\<lparr>question_text = ''first'', options = [''A'', ''B''], correct_answer = ''A'', order_index = 0\<rparr>]
   = None"
proof -
  let ?bad = "\<lparr>question_text = ''first'', options = [''A'', ''B''], correct_answer = ''Z'', order_index = 0\<rparr>"
  let ?blank = "\<lparr>question_text = '''', options = [''A'', ''B''], correct_answer = ''A'', order_index = 1\<rparr>"
  let ?good = "\<lparr>question_text = ''first'', options = [''A'', ''B''], correct_answer = ''A'', order_index = 0\<rparr>"
  have t: "js_trim ''Quiz'' \<noteq> []" "js_trim ''first'' \<noteq> []" "js_trim ''A'' \<noteq> []"
    "js_trim ''B'' \<noteq> []" "js_trim ''Z'' \<noteq> []"
    by (simp_all add: js_trim_def WhiteSpace_def)
  have "\<exists>i < length [?bad, ?blank]. (\<forall>j < i. question_valid ([?bad, ?blank] ! j)) \<and>
           (let q = [?bad, ?blank] ! i in
            if js_trim (question_text q) = [] then CorrectAnswerNotAnOption 0 = QuestionTextMissing i
            else if \<exists>option \<in> set (options q). js_trim option = []
              then CorrectAnswerNotAnOption 0 = OptionMissing i
            else if js_trim (correct_answer q) = [] then CorrectAnswerNotAnOption 0 = CorrectAnswerMissing i
            else correct_answer q \<notin> set (options q)
               \<and> CorrectAnswerNotAnOption 0 = CorrectAnswerNotAnOption i)"
    by (rule exI [of _ 0]) (simp add: t)
  with validateForm_first_question_first_rule [of "''Quiz''" "[?bad, ?blank]" "CorrectAnswerNotAnOption 0"] t(1)
  have a: "validateForm ''Quiz'' [?bad, ?blank] = Some (CorrectAnswerNotAnOption 0)"
    by simp
  have "question_valid ?good"
    by (simp add: question_valid_def t)
  with validateForm_first_question_first_rule [of "''Quiz''" "[?good]"] t(1)
  have b: "validateForm ''Quiz'' [?good] = None"
    by simp
  from a b show ?thesis by simp
qed

section \<open>Properties of taking a quiz\<close>


lemma js_trim_nonempty: "js_trim s \<noteq> [] \<Longrightarrow> s \<noteq> []"
  by (auto simp: js_trim_def)

lemma count_split:
  "{i. i < Suc n \<and> Q i} = (if Q 0 then {0} else {}) \<union> Suc ` {i. i < n \<and> Q (Suc i)}"
  by (auto simp: less_Suc_eq_0_disj image_iff)

lemma card_count_split:
  "card {i. i < Suc n \<and> Q i} = (if Q 0 then 1 else 0) + card {i. i < n \<and> Q (Suc i)}"
proof -
  have f: "finite (Suc ` {i. i < n \<and> Q (Suc i)})" by simp
  have c: "card (Suc ` {i. i < n \<and> Q (Suc i)}) = card {i. i < n \<and> Q (Suc i)}"
    by (simp add: card_image)
  have d: "{0} \<inter> Suc ` {i. i < n \<and> Q (Suc i)} = {}" by auto
  show ?thesis
    unfolding count_split [of n Q]
    using c d f by (simp add: card_Un_disjoint card_insert_if)
qed

lemma calculateScore_from_count:
  "calculateScore_from n qs as c =
     c + card {i. i < length qs \<and> nth_opt as (n + i) = Some (correct_answer (qs ! i))}"
proof (induction qs arbitrary: n c)
  case Nil
  then show ?case by simp
next
  case (Cons q qs)
  show ?case
    by (simp add: Cons.IH card_count_split
        [of "length qs" "\<lambda>i. nth_opt as (n + i) = Some (correct_answer ((q # qs) ! i))"])
qed

lemma calculateScore_count:
  assumes "length as = length qs"
  shows "calculateScore qs as = card {i. i < length qs \<and> as ! i = correct_answer (qs ! i)}"
proof -
  have "{i. i < length qs \<and> nth_opt as (0 + i) = Some (correct_answer (qs ! i))}
      = {i. i < length qs \<and> as ! i = correct_answer (qs ! i)}"
    using assms by (auto simp: nth_opt_def)
  then show ?thesis
    by (simp add: calculateScore_def calculateScore_from_count)
qed

lemma handleSubmit_ResultsShown:
  assumes "handleSubmit quizId accepts (s, t) = (ResultsShown, s', t')"
  shows "js_trim (studentName s) \<noteq> []" "js_trim (studentEmail s) \<noteq> []"
    "\<forall>a \<in> set (answers s). js_trim a \<noteq> []"
    "s' = s\<lparr>score := calculateScore (questions s) (answers s), submitted := True,
            showResults := True, submitting := False\<rparr>"
    "t' = t @ [[(''quiz_id'', JString quizId),
               (''student_name'', JString (js_trim (studentName s))),
               (''student_email'', JString (js_trim (studentEmail s))),
               (''answers'', JArray (answers s)),
               (''score'', JNumber (int (calculateScore (questions s) (answers s)))),
               (''total_questions'', JNumber (int (length (questions s))))]]"
  using assms
  by (auto simp: handleSubmit_def Let_def list_ex_iff split: if_splits)



text \<open>
  C5. For a question list and an answer list of the same length, the score is the number
  of positions at which the answer is the same text as the correct answer of the
  question (equality of texts: upper and lower case differ, and so does a trailing
  space). When \<open>handleSubmit\<close> shows the results, it has stored that score and has
  inserted one row, whose \<open>score\<close> is that number and whose \<open>total_questions\<close> is the
  number of questions.
\<close>

theorem calculateScore_counts_exact_matches:
  "(length as = length qs \<longrightarrow>
      calculateScore qs as = card {i. i < length qs \<and> as ! i = correct_answer (qs ! i)})
   \<and> (handleSubmit quizId accepts (s, t) = (ResultsShown, s', t') \<longrightarrow>
        score s' = calculateScore (questions s) (answers s)
        \<and> (\<exists>row. t' = t @ [row]
             \<and> map_of row ''answers'' = Some (JArray (answers s))
             \<and> map_of row ''score'' = Some (JNumber (int (calculateScore (questions s) (answers s))))
             \<and> map_of row ''total_questions'' = Some (JNumber (int (length (questions s))))))"
proof (intro conjI impI)
  assume "length as = length qs"
  then show "calculateScore qs as = card {i. i < length qs \<and> as ! i = correct_answer (qs ! i)}"
    by (rule calculateScore_count)
next
  assume h: "handleSubmit quizId accepts (s, t) = (ResultsShown, s', t')"
  from handleSubmit_ResultsShown(4) [OF h]
  show "score s' = calculateScore (questions s) (answers s)" by simp
  from handleSubmit_ResultsShown(5) [OF h]
  show "\<exists>row. t' = t @ [row]
             \<and> map_of row ''answers'' = Some (JArray (answers s))
             \<and> map_of row ''score'' = Some (JNumber (int (calculateScore (questions s) (answers s))))
             \<and> map_of row ''total_questions'' = Some (JNumber (int (length (questions s))))"
    by simp
qed

theorem calculateScore_counts_exact_matches_witness:
  "calculateScore
     [\<lparr>question_text = ''one'', options = [''A'', ''B''], correct_answer = ''A'', order_index = 0,
       question_id = ''q1'', quiz_id = ''z''\<rparr>,
      \<lparr>question_text = ''two'', options = [''B'', ''C''], correct_answer = ''B'', order_index = 1,
       question_id = ''q2'', quiz_id = ''z''\<rparr>]
     [''A'', ''C''] = 1
   \<and> calculateScore
     [\<lparr>question_text = ''one'', options = [''A'', ''B''], correct_answer = ''A'', order_index = 0,
       question_id = ''q1'', quiz_id = ''z''\<rparr>,
      \<lparr>question_text = ''two'', options = [''B'', ''C''], correct_answer = ''B'', order_index = 1,
       question_id = ''q2'', quiz_id = ''z''\<rparr>]
     [''a'', ''B ''] = 0
   \<and> (\<exists>s' row.
        handleSubmit ''z'' (\<lambda>_. True)
          (\<lparr>questions =
              [\<lparr>question_text = ''one'', options = [''A'', ''B''], correct_answer = ''A'',
                order_index = 0, question_id = ''q1'', quiz_id = ''z''\<rparr>,
               \<lparr>question_text = ''two'', options = [''B'', ''C''], correct_answer = ''B'',
                order_index = 1, question_id = ''q2'', quiz_id = ''z''\<rparr>],
            currentQuestion = 1, answers = [''A'', ''C''], studentName = ''Ann'',
            studentEmail = ''ann@x.org'', submitting = False, submitted = False, score = 0,
            showResults = False\<rparr>, [])
        = (ResultsShown, s', [row])
        \<and> score s' = 1
        \<and> map_of row ''score'' = Some (JNumber 1)
        \<and> map_of row ''total_questions'' = Some (JNumber 2))"
proof -
  let ?q1 = "\<lparr>question_text = ''one'', options = [''A'', ''B''], correct_answer = ''A'', order_index = 0,
       question_id = ''q1'', quiz_id = ''z''\<rparr>"
  let ?q2 = "\<lparr>question_text = ''two'', options = [''B'', ''C''], correct_answer = ''B'', order_index = 1,
       question_id = ''q2'', quiz_id = ''z''\<rparr>"
  let ?s = "\<lparr>questions = [?q1, ?q2],
            currentQuestion = 1, answers = [''A'', ''C''], studentName = ''Ann'',
            studentEmail = ''ann@x.org'', submitting = False, submitted = False, score = 0,
            showResults = False\<rparr>"
  have e1: "{i. i < length [?q1, ?q2] \<and> [''A'', ''C''] ! i = correct_answer ([?q1, ?q2] ! i)} = {0}"
    by (auto simp: less_Suc_eq nth_Cons')
  have e2: "{i. i < length [?q1, ?q2] \<and> [''a'', ''B ''] ! i = correct_answer ([?q1, ?q2] ! i)} = {}"
    by (auto simp: less_Suc_eq nth_Cons')
  have a: "calculateScore [?q1, ?q2] [''A'', ''C''] = 1"
    using calculateScore_counts_exact_matches [of "[''A'', ''C'']" "[?q1, ?q2]"] e1 by simp
  have b: "calculateScore [?q1, ?q2] [''a'', ''B ''] = 0"
    using calculateScore_counts_exact_matches [of "[''a'', ''B '']" "[?q1, ?q2]"] e2 by simp
  obtain out s' t' where h: "handleSubmit ''z'' (\<lambda>_. True) (?s, []) = (out, s', t')"
    by (cases "handleSubmit ''z'' (\<lambda>_. True) (?s, [])") auto
  have "fst (handleSubmit ''z'' (\<lambda>_. True) (?s, [])) = ResultsShown"
    by (simp add: handleSubmit_def js_trim_def WhiteSpace_def Let_def)
  with h have out: "out = ResultsShown" by simp
  from calculateScore_counts_exact_matches [of "[]" "[]" "''z''" "\<lambda>_. True" ?s "[]" s' t'] h out a
  have "score s' = 1 \<and> (\<exists>row. t' = [row] \<and> map_of row ''score'' = Some (JNumber 1)
          \<and> map_of row ''total_questions'' = Some (JNumber 2))"
    by auto
  with h out a b show ?thesis by auto
qed

text \<open>
  \<open>handleSubmit\<close> is \<open>handleSubmit_call\<close> followed at once by \<open>handleSubmit_resume\<close>.
\<close>

lemma handleSubmit_split:
  "handleSubmit quizId accepts (s, t) =
     (case handleSubmit_call quizId s of
        (Inl out, s') \<Rightarrow> (out, s', t)
      | (Inr pending, s') \<Rightarrow> handleSubmit_resume (accepts (snd pending)) pending (s', t))"
  by (simp add: handleSubmit_def handleSubmit_call_def handleSubmit_resume_def Let_def)










text \<open>
  Every row that \<open>handleSubmit\<close> inserts has the six keys of its object literal.
\<close>

lemma handleSubmit_row_keys:
  assumes "handleSubmit quizId accepts (s, t) = (out, s', t')"
  shows "t' = t \<or> (\<exists>row. t' = t @ [row]
           \<and> map fst row = [''quiz_id'', ''student_name'', ''student_email'', ''answers'', ''score'',
                            ''total_questions''])"
  using assms by (auto simp: handleSubmit_def Let_def split: if_splits)

text \<open>
  C2. Every inserted response row is claimed to carry \<open>student_register_number\<close>, as the
  \<open>Response\<close> type and the \<open>responses\<close> table declare it (text, required). The row that
  \<open>handleSubmit\<close> inserts for a complete submission has no such key.
\<close>

theorem handleSubmit_omits_register_number:
  "(case handleSubmit ''z'' (\<lambda>_. True)
      (\<lparr>questions =
          [\<lparr>question_text = ''one'', options = [''A'', ''B''], correct_answer = ''A'',
            order_index = 0, question_id = ''q1'', quiz_id = ''z''\<rparr>],
        currentQuestion = 0, answers = [''A''], studentName = ''Ann'',
        studentEmail = ''ann@x.org'', submitting = False, submitted = False, score = 0,
        showResults = False\<rparr>, [])
    of (out, s', rows) \<Rightarrow>
      (out, rows, map (\<lambda>row. map_of row ''student_register_number'') rows))
   = (ResultsShown,
      [[(''quiz_id'', JString ''z''), (''student_name'', JString ''Ann''),
        (''student_email'', JString ''ann@x.org''), (''answers'', JArray [''A'']),
        (''score'', JNumber 1), (''total_questions'', JNumber 1)]],
      [None])"
  by (simp add: handleSubmit_def calculateScore_def nth_opt_def js_trim_def WhiteSpace_def Let_def)

section \<open>Properties of the results\<close>

lemma floor_numeral_div:
  "\<lfloor>numeral a / numeral b :: rat\<rfloor> = numeral a div numeral b"
  using floor_divide_of_int_eq [of "numeral a" "numeral b", where ?'a = rat] by simp

lemma floor_neg_numeral_div:
  "\<lfloor>- (numeral a / numeral b) :: rat\<rfloor> = (- numeral a) div numeral b"
  using floor_divide_of_int_eq [of "- numeral a" "numeral b", where ?'a = rat] by simp

lemmas fl_eval =
  fl_def floor_log2_def pow2_def round_even_def round_half_up_def bits.simps ceiling_def
  floor_numeral_div floor_neg_numeral_div Let_def

text \<open>
  An integer below \<open>2^53\<close> in size is a double, so the sum of the stored scores is
  computed without rounding as long as it stays below that.
\<close>

lemma bits_le: "n < 2 ^ k \<Longrightarrow> bits n \<le> k"
proof (induction k arbitrary: n)
  case 0
  then show ?case by (simp add: bits.simps)
next
  case (Suc k)
  then have "n div 2 < 2 ^ k" by simp
  from Suc.IH [OF this] show ?case by (subst bits.simps) simp
qed

lemma bits_pos: "0 < n \<Longrightarrow> 0 < bits n"
  by (subst bits.simps) simp

lemma round_even_of_int: "round_even (of_int m) = m"
  by (simp add: round_even_def)

lemma fl_of_int:
  assumes "\<bar>k\<bar> < 2 ^ 53"
  shows "fl (of_int k) = Num (of_int k)"
proof (cases "k = 0")
  case True
  then show ?thesis by (simp add: fl_def)
next
  case False
  define b where "b = bits (nat \<bar>k\<bar>)"
  define m where "m = 53 - b"
  from assms have "nat \<bar>k\<bar> < 2 ^ 53"
    by (simp add: nat_less_iff)
  then have b53: "b \<le> 53" unfolding b_def by (rule bits_le)
  from False have "0 < nat \<bar>k\<bar>" by simp
  then have b0: "0 < b" unfolding b_def by (rule bits_pos)
  from False have "(1 :: rat) \<le> \<bar>of_int k\<bar>"
  proof -
    from False have "1 \<le> \<bar>k\<bar>" by simp
    then have "(of_int 1 :: rat) \<le> of_int \<bar>k\<bar>" by (simp only: of_int_le_iff)
    then show ?thesis by simp
  qed
  moreover have "\<lfloor>\<bar>of_int k :: rat\<bar>\<rfloor> = \<bar>k\<bar>"
    by (metis of_int_abs floor_of_int)
  ultimately have "floor_log2 \<bar>of_int k\<bar> = int b - 1"
    by (simp add: floor_log2_def b_def)
  with b0 b53 have e: "max (floor_log2 \<bar>of_int k\<bar> - 52) (- 1074) = - int m"
    by (simp add: m_def)
  have p: "pow2 (- int m) = 1 / 2 ^ m"
    by (cases "m = 0") (simp_all add: pow2_def)
  have "of_int k / pow2 (- int m) = (of_int (k * 2 ^ m) :: rat)"
    by (simp add: p)
  then have r: "round_even (of_int k / pow2 (- int m)) = k * 2 ^ m"
    by (simp only: round_even_of_int)
  have y: "of_int (k * 2 ^ m) * pow2 (- int m) = (of_int k :: rat)"
    by (simp add: p)
  from assms have "(of_int \<bar>k\<bar> :: rat) < of_int (2 ^ 53)" by (simp only: of_int_less_iff)
  then have "\<bar>of_int k :: rat\<bar> < 2 ^ 53" by simp
  also have "(2 :: rat) ^ 53 \<le> 2 ^ 1024"
    by (rule power_increasing) simp_all
  finally have lt: "\<bar>of_int k :: rat\<bar> < pow2 1024"
    by (simp add: pow2_def)
  from r y
  have yy: "of_int (round_even (of_int k / pow2 (- int m))) * pow2 (- int m) = (of_int k :: rat)"
    by (simp only:)
  from False have nz: "(of_int k :: rat) \<noteq> 0" by simp
  show ?thesis
    unfolding fl_def Let_def e yy using nz lt by simp
qed

lemma sint_score_bound: "\<bar>sint (w :: 32 word)\<bar> \<le> 2 ^ 31"
  using sint_lt [of w] sint_ge [of w] by simp

lemma foldl_response_score:
  "\<bar>a\<bar> + 2 ^ 31 * int (length rs) < 2 ^ 53 \<Longrightarrow>
   foldl (\<lambda>sum response. js_add sum (of_int (sint (response_score response))))
     (Num (of_int a)) rs
   = Num (of_int (a + sum_list (map (\<lambda>r. sint (response_score r)) rs)))"
proof (induction rs arbitrary: a)
  case Nil
  then show ?case by simp
next
  case (Cons r rs)
  let ?s = "sint (response_score r)"
  have s: "\<bar>?s\<bar> \<le> 2 ^ 31" by (rule sint_score_bound)
  from Cons.prems have b: "\<bar>a\<bar> + 2 ^ 31 + 2 ^ 31 * int (length rs) < 2 ^ 53"
    by (simp add: algebra_simps)
  have n: "(0 :: int) \<le> 2 ^ 31 * int (length rs)" by simp
  from s b n have "\<bar>a + ?s\<bar> < 2 ^ 53" by simp
  then have f: "fl (of_int (a + ?s)) = Num (of_int (a + ?s))" by (rule fl_of_int)
  from s b have "\<bar>a + ?s\<bar> + 2 ^ 31 * int (length rs) < 2 ^ 53" by simp
  from Cons.IH [OF this] f show ?case
    by (simp add: add.assoc)
qed

text \<open>
  C3, as claimed: the average percentage is the rounding of the returned, one-decimal
  average score divided by the number of questions, times 100. With the scores 1, 1, 2
  and three questions the returned average score is the double 1.3 and the average
  percentage is 44, where dividing the returned average score by 3, multiplying by 100
  and rounding gives 43.
\<close>

theorem calculateStats_percentage_not_from_rounded_average:
  "averageScore (calculateStats
      [\<lparr>response_id = ''r1'', response_quiz_id = ''z'', student_name = ''Ann'',
        student_email = ''ann@x.org'', student_register_number = ''1'',
        response_answers = [''A'', ''C'', ''D''], response_score = 1, total_questions = 3,
        submitted_at = ''2024-01-03''\<rparr>,
       \<lparr>response_id = ''r2'', response_quiz_id = ''z'', student_name = ''Bob'',
        student_email = ''bob@x.org'', student_register_number = ''2'',
        response_answers = [''B'', ''B'', ''D''], response_score = 1, total_questions = 3,
        submitted_at = ''2024-01-02''\<rparr>,
       \<lparr>response_id = ''r3'', response_quiz_id = ''z'', student_name = ''Cyd'',
        student_email = ''cyd@x.org'', student_register_number = ''3'',
        response_answers = [''A'', ''B'', ''D''], response_score = 2, total_questions = 3,
        submitted_at = ''2024-01-01''\<rparr>]
      [''q1'', ''q2'', ''q3'']) = fl (13 / 10)
   \<and> averagePercentage (calculateStats
      [\<lparr>response_id = ''r1'', response_quiz_id = ''z'', student_name = ''Ann'',
        student_email = ''ann@x.org'', student_register_number = ''1'',
        response_answers = [''A'', ''C'', ''D''], response_score = 1, total_questions = 3,
        submitted_at = ''2024-01-03''\<rparr>,
       \<lparr>response_id = ''r2'', response_quiz_id = ''z'', student_name = ''Bob'',
        student_email = ''bob@x.org'', student_register_number = ''2'',
        response_answers = [''B'', ''B'', ''D''], response_score = 1, total_questions = 3,
        submitted_at = ''2024-01-02''\<rparr>,
       \<lparr>response_id = ''r3'', response_quiz_id = ''z'', student_name = ''Cyd'',
        student_email = ''cyd@x.org'', student_register_number = ''3'',
        response_answers = [''A'', ''B'', ''D''], response_score = 2, total_questions = 3,
        submitted_at = ''2024-01-01''\<rparr>]
      [''q1'', ''q2'', ''q3'']) = Num 44
   \<and> Math_round (js_mul (js_div (averageScore (calculateStats
      [\<lparr>response_id = ''r1'', response_quiz_id = ''z'', student_name = ''Ann'',
        student_email = ''ann@x.org'', student_register_number = ''1'',
        response_answers = [''A'', ''C'', ''D''], response_score = 1, total_questions = 3,
        submitted_at = ''2024-01-03''\<rparr>,
       \<lparr>response_id = ''r2'', response_quiz_id = ''z'', student_name = ''Bob'',
        student_email = ''bob@x.org'', student_register_number = ''2'',
        response_answers = [''B'', ''B'', ''D''], response_score = 1, total_questions = 3,
        submitted_at = ''2024-01-02''\<rparr>,
       \<lparr>response_id = ''r3'', response_quiz_id = ''z'', student_name = ''Cyd'',
        student_email = ''cyd@x.org'', student_register_number = ''3'',
        response_answers = [''A'', ''B'', ''D''], response_score = 2, total_questions = 3,
        submitted_at = ''2024-01-01''\<rparr>]
      [''q1'', ''q2'', ''q3''])) 3) 100) = Num 43"
  by (simp add: calculateStats_def fl_eval)

text \<open>
  C3, amended. Without responses all three fields are 0. With at least one and at most
  \<open>2^21\<close> responses the sum of the scores is computed without rounding, and with
  \<open>mean\<close> the double nearest to that sum divided by the number of responses: the
  average score is \<open>mean * 10\<close>, rounded half up to an integer and divided by 10; the
  number of responses is the length of the list; and the average percentage is
  \<open>mean / questionCount * 100\<close> rounded half up to an integer, computed from the mean
  before it is rounded to one decimal place. Every product and quotient is the nearest
  double of the exact one, so the percentage is not always the rounding of the exact
  fraction: the scores 12 and 11 on 20 questions give 57, not 58.
\<close>

theorem calculateStats_percentage_from_unrounded_mean:
  "calculateStats [] qs
     = \<lparr>averageScore = Num 0, totalResponses = 0, averagePercentage = Num 0\<rparr>
   \<and> (rs \<noteq> [] \<and> length rs \<le> 2 ^ 21 \<longrightarrow>
        (let mean = js_div (Num (of_int (sum_list (map (\<lambda>r. sint (response_score r)) rs))))
                      (of_nat (length rs)) in
           averageScore (calculateStats rs qs)
             = js_div (number (Math_round (js_mul mean 10))) 10
         \<and> totalResponses (calculateStats rs qs) = length rs
         \<and> averagePercentage (calculateStats rs qs)
             = Math_round (js_mul (js_div mean (of_nat (length qs))) 100)))"
proof (intro conjI impI)
  show "calculateStats [] qs
     = \<lparr>averageScore = Num 0, totalResponses = 0, averagePercentage = Num 0\<rparr>"
    by (simp add: calculateStats_def)
next
  assume a: "rs \<noteq> [] \<and> length rs \<le> 2 ^ 21"
  then have "int (length rs) \<le> 2 ^ 21"
    by (metis of_nat_le_iff of_nat_numeral of_nat_power)
  then have "\<bar>0 :: int\<bar> + 2 ^ 31 * int (length rs) < 2 ^ 53" by simp
  from foldl_response_score [OF this]
  have "foldl (\<lambda>sum response. js_add sum (of_int (sint (response_score response))))
          (Num 0) rs
        = Num (of_int (sum_list (map (\<lambda>r. sint (response_score r)) rs)))"
    by simp
  with a show "let mean = js_div (Num (of_int (sum_list (map (\<lambda>r. sint (response_score r)) rs))))
                      (of_nat (length rs)) in
           averageScore (calculateStats rs qs)
             = js_div (number (Math_round (js_mul mean 10))) 10
         \<and> totalResponses (calculateStats rs qs) = length rs
         \<and> averagePercentage (calculateStats rs qs)
             = Math_round (js_mul (js_div mean (of_nat (length qs))) 100)"
    by (simp add: calculateStats_def Let_def)
qed

theorem calculateStats_percentage_from_unrounded_mean_witness:
  "calculateStats
      [\<lparr>response_id = ''r1'', response_quiz_id = ''z'', student_name = ''Ann'',
        student_email = ''ann@x.org'', student_register_number = ''1'',
        response_answers = [''A'', ''B'', ''D''], response_score = 3, total_questions = 3,
        submitted_at = ''2024-01-03''\<rparr>,
       \<lparr>response_id = ''r2'', response_quiz_id = ''z'', student_name = ''Bob'',
        student_email = ''bob@x.org'', student_register_number = ''2'',
        response_answers = [''B'', ''B'', ''C''], response_score = 1, total_questions = 3,
        submitted_at = ''2024-01-02''\<rparr>,
       \<lparr>response_id = ''r3'', response_quiz_id = ''z'', student_name = ''Cyd'',
        student_email = ''cyd@x.org'', student_register_number = ''3'',
        response_answers = [''A'', ''B'', ''C''], response_score = 2, total_questions = 3,
        submitted_at = ''2024-01-01''\<rparr>]
      [''q1'', ''q2'', ''q3'']
   = \<lparr>averageScore = Num 2, totalResponses = 3, averagePercentage = Num 67\<rparr>
   \<and> calculateStats
      [\<lparr>response_id = ''r1'', response_quiz_id = ''z'', student_name = ''Ann'',
        student_email = ''ann@x.org'', student_register_number = ''1'',
        response_answers = [], response_score = 12, total_questions = 20,
        submitted_at = ''2024-01-03''\<rparr>,
       \<lparr>response_id = ''r2'', response_quiz_id = ''z'', student_name = ''Bob'',
        student_email = ''bob@x.org'', student_register_number = ''2'',
        response_answers = [], response_score = 11, total_questions = 20,
        submitted_at = ''2024-01-02''\<rparr>]
      (replicate 20 ''q'')
   = \<lparr>averageScore = Num (23 / 2), totalResponses = 2, averagePercentage = Num 57\<rparr>"
proof -
  let ?rs = "[\<lparr>response_id = ''r1'', response_quiz_id = ''z'', student_name = ''Ann'',
        student_email = ''ann@x.org'', student_register_number = ''1'',
        response_answers = [''A'', ''B'', ''D''], response_score = 3, total_questions = 3,
        submitted_at = ''2024-01-03''\<rparr>,
       \<lparr>response_id = ''r2'', response_quiz_id = ''z'', student_name = ''Bob'',
        student_email = ''bob@x.org'', student_register_number = ''2'',
        response_answers = [''B'', ''B'', ''C''], response_score = 1, total_questions = 3,
        submitted_at = ''2024-01-02''\<rparr>,
       \<lparr>response_id = ''r3'', response_quiz_id = ''z'', student_name = ''Cyd'',
        student_email = ''cyd@x.org'', student_register_number = ''3'',
        response_answers = [''A'', ''B'', ''C''], response_score = 2, total_questions = 3,
        submitted_at = ''2024-01-01''\<rparr>]"
  let ?qs = "[''q1'', ''q2'', ''q3'']"
  let ?rt = "[\<lparr>response_id = ''r1'', response_quiz_id = ''z'', student_name = ''Ann'',
        student_email = ''ann@x.org'', student_register_number = ''1'',
        response_answers = [], response_score = 12, total_questions = 20,
        submitted_at = ''2024-01-03''\<rparr>,
       \<lparr>response_id = ''r2'', response_quiz_id = ''z'', student_name = ''Bob'',
        student_email = ''bob@x.org'', student_register_number = ''2'',
        response_answers = [], response_score = 11, total_questions = 20,
        submitted_at = ''2024-01-02''\<rparr>]"
  let ?qt = "replicate 20 ''q''"
  have "?rs \<noteq> [] \<and> length ?rs \<le> 2 ^ 21" by simp
  with calculateStats_percentage_from_unrounded_mean [of ?qs ?rs]
  have "averageScore (calculateStats ?rs ?qs) = Num 2"
    "totalResponses (calculateStats ?rs ?qs) = 3"
    "averagePercentage (calculateStats ?rs ?qs) = Num 67"
    by (simp_all add: fl_eval)
  then have s: "calculateStats ?rs ?qs
      = \<lparr>averageScore = Num 2, totalResponses = 3, averagePercentage = Num 67\<rparr>"
    by (cases "calculateStats ?rs ?qs") simp
  have "?rt \<noteq> [] \<and> length ?rt \<le> 2 ^ 21" by simp
  with calculateStats_percentage_from_unrounded_mean [of ?qt ?rt]
  have "averageScore (calculateStats ?rt ?qt) = Num (23 / 2)"
    "totalResponses (calculateStats ?rt ?qt) = 2"
    "averagePercentage (calculateStats ?rt ?qt) = Num 57"
    by (simp_all add: fl_eval)
  then have "calculateStats ?rt ?qt
      = \<lparr>averageScore = Num (23 / 2), totalResponses = 2, averagePercentage = Num 57\<rparr>"
    by (cases "calculateStats ?rt ?qt") simp
  with s show ?thesis by simp
qed

lemma join_Cons: "join sep (x # xs) = x @ concat (map (\<lambda>y. sep @ y) xs)"
  by (induction xs arbitrary: x) simp_all

lemma length_csv_headers: "length (csv_headers qs) = 5 + length qs"
  by (simp add: csv_headers_def)

lemma header_line:
  "join '','' (csv_headers qs) =
     ''Student Name,Email,Score,Percentage,Submitted At''
     @ concat (map (\<lambda>k. '',Question '' @ string_of_nat (k + 1)) [0 ..< length qs])"
  by (simp add: csv_headers_def join_Cons comp_def)

text \<open>
  C7. For a response list that is not empty, the exported text is a list of lines
  joined by line feeds: the header line, which is the header names joined by commas
  (\<open>Student Name\<close> to \<open>Submitted At\<close>, then \<open>Question 1\<close> to \<open>Question N\<close>), and then
  one line per response, in the order of the list. The line of a response is its cells
  (name, email, score, percentage with a percent sign, date, then the answers), each put
  between two double quotes as it is and joined by commas: a double quote inside a cell
  is neither doubled nor removed, so the line starts with a double quote, the student
  name unchanged, and a double quote. The percentage is the stored score divided by the
  stored total and multiplied by 100, each the nearest double, then rounded half up.
\<close>

theorem exportToCSV_rows_quoted_unescaped:
  "rs \<noteq> [] \<longrightarrow>
     (\<exists>lines. exportToCSV toLocaleString rs qs = Some (join [CHR 0x0A] lines)
        \<and> length lines = Suc (length rs)
        \<and> lines ! 0 =
            ''Student Name,Email,Score,Percentage,Submitted At''
            @ concat (map (\<lambda>k. '',Question '' @ string_of_nat (k + 1)) [0 ..< length qs])
        \<and> (\<forall>i < length rs.
              lines ! Suc i =
                join '',''
                  (map (\<lambda>text. [CHR 0x22] @ text @ [CHR 0x22])
                    ([student_name (rs ! i),
                      student_email (rs ! i),
                      string_of_int (sint (response_score (rs ! i))),
                      toString
                        (Math_round
                          (js_mul (js_div (Num (of_int (sint (response_score (rs ! i)))))
                                          (of_int (sint (total_questions (rs ! i))))) 100))
                        @ ''%'',
                      toLocaleString (submitted_at (rs ! i))]
                     @ response_answers (rs ! i)))
              \<and> take (length (student_name (rs ! i)) + 2) (lines ! Suc i)
                  = [CHR 0x22] @ student_name (rs ! i) @ [CHR 0x22]))"
proof
  assume ne: "rs \<noteq> []"
  let ?quote = "\<lambda>cell. [CHR 0x22] @ cell_text cell @ [CHR 0x22]"
  let ?lines = "join '','' (csv_headers qs)
       # map (\<lambda>row. join '','' (map ?quote row)) (map (csv_row toLocaleString) rs)"
  have e: "exportToCSV toLocaleString rs qs = Some (join [CHR 0x0A] ?lines)"
    using ne by (simp add: exportToCSV_def Let_def)
  have l: "length ?lines = Suc (length rs)" by simp
  have h: "?lines ! 0 = ''Student Name,Email,Score,Percentage,Submitted At''
            @ concat (map (\<lambda>k. '',Question '' @ string_of_nat (k + 1)) [0 ..< length qs])"
    by (simp add: header_line)
  have r: "?lines ! Suc i =
                join '',''
                  (map (\<lambda>text. [CHR 0x22] @ text @ [CHR 0x22])
                    ([student_name (rs ! i),
                      student_email (rs ! i),
                      string_of_int (sint (response_score (rs ! i))),
                      toString
                        (Math_round
                          (js_mul (js_div (Num (of_int (sint (response_score (rs ! i)))))
                                          (of_int (sint (total_questions (rs ! i))))) 100))
                        @ ''%'',
                      toLocaleString (submitted_at (rs ! i))]
                     @ response_answers (rs ! i)))
              \<and> take (length (student_name (rs ! i)) + 2) (?lines ! Suc i)
                  = [CHR 0x22] @ student_name (rs ! i) @ [CHR 0x22]" if "i < length rs" for i
    using that by (simp add: csv_row_def Let_def comp_def join_Cons del: js_div.simps js_mul.simps)
  from e l h r show "\<exists>lines. exportToCSV toLocaleString rs qs = Some (join [CHR 0x0A] lines)
        \<and> length lines = Suc (length rs)
        \<and> lines ! 0 =
            ''Student Name,Email,Score,Percentage,Submitted At''
            @ concat (map (\<lambda>k. '',Question '' @ string_of_nat (k + 1)) [0 ..< length qs])
        \<and> (\<forall>i < length rs.
              lines ! Suc i =
                join '',''
                  (map (\<lambda>text. [CHR 0x22] @ text @ [CHR 0x22])
                    ([student_name (rs ! i),
                      student_email (rs ! i),
                      string_of_int (sint (response_score (rs ! i))),
                      toString
                        (Math_round
                          (js_mul (js_div (Num (of_int (sint (response_score (rs ! i)))))
                                          (of_int (sint (total_questions (rs ! i))))) 100))
                        @ ''%'',
                      toLocaleString (submitted_at (rs ! i))]
                     @ response_answers (rs ! i)))
              \<and> take (length (student_name (rs ! i)) + 2) (lines ! Suc i)
                  = [CHR 0x22] @ student_name (rs ! i) @ [CHR 0x22])"
    by blast
qed

theorem exportToCSV_rows_quoted_unescaped_witness:
  "exportToCSV (\<lambda>iso. iso)
     [\<lparr>response_id = ''r1'', response_quiz_id = ''z'', student_name = ''Jane \"JJ\" Doe'',
       student_email = ''jane@x.org'', student_register_number = ''7'',
       response_answers = [''A'', ''C''], response_score = 1, total_questions = 2,
       submitted_at = ''2024-01-03''\<rparr>,
      \<lparr>response_id = ''r2'', response_quiz_id = ''z'', student_name = ''Bob'',
       student_email = ''bob@x.org'', student_register_number = ''8'',
       response_answers = [''B'', ''C''], response_score = 23, total_questions = 40,
       submitted_at = ''2024-01-02''\<rparr>]
     [''q1'', ''q2'']
   = Some (''Student Name,Email,Score,Percentage,Submitted At,Question 1,Question 2''
           @ [CHR 0x0A]
           @ ''\"Jane \"JJ\" Doe\",\"jane@x.org\",\"1\",\"50%\",\"2024-01-03\",\"A\",\"C\"''
           @ [CHR 0x0A]
           @ ''\"Bob\",\"bob@x.org\",\"23\",\"57%\",\"2024-01-02\",\"B\",\"C\"'')"
proof -
  let ?r = "\<lparr>response_id = ''r1'', response_quiz_id = ''z'', student_name = ''Jane \"JJ\" Doe'',
       student_email = ''jane@x.org'', student_register_number = ''7'',
       response_answers = [''A'', ''C''], response_score = 1, total_questions = 2,
       submitted_at = ''2024-01-03''\<rparr>"
  let ?b = "\<lparr>response_id = ''r2'', response_quiz_id = ''z'', student_name = ''Bob'',
       student_email = ''bob@x.org'', student_register_number = ''8'',
       response_answers = [''B'', ''C''], response_score = 23, total_questions = 40,
       submitted_at = ''2024-01-02''\<rparr>"
  have n: "string_of_nat (Suc 0) = ''1''" "string_of_nat (Suc (Suc 0)) = ''2''"
    "string_of_int 1 = ''1''" "string_of_int 50 = ''50''" "string_of_int 23 = ''23''"
    "string_of_int 57 = ''57''"
    by (simp_all add: string_of_int_def string_of_nat.simps)
  have p: "Math_round (js_mul (js_div (Num 1) 2) 100) = Num 50"
    "Math_round (js_mul (js_div (Num 23) 40) 100) = Num 57"
    by (simp_all add: fl_eval)
  have "\<exists>lines. exportToCSV (\<lambda>iso. iso) [?r, ?b] [''q1'', ''q2''] = Some (join [CHR 0x0A] lines)
          \<and> length lines = 3
          \<and> lines ! 0 = ''Student Name,Email,Score,Percentage,Submitted At,Question 1,Question 2''
          \<and> lines ! 1 = ''\"Jane \"JJ\" Doe\",\"jane@x.org\",\"1\",\"50%\",\"2024-01-03\",\"A\",\"C\"''
          \<and> lines ! 2 = ''\"Bob\",\"bob@x.org\",\"23\",\"57%\",\"2024-01-02\",\"B\",\"C\"''"
    using exportToCSV_rows_quoted_unescaped [of "[?r, ?b]" "\<lambda>iso. iso" "[''q1'', ''q2'']"]
    by (auto simp: n p upt_rec All_less_Suc numeral_2_eq_2 simp del: js_div.simps js_mul.simps)
  then obtain lines where e: "exportToCSV (\<lambda>iso. iso) [?r, ?b] [''q1'', ''q2''] = Some (join [CHR 0x0A] lines)"
    and l: "length lines = 3"
    and a: "lines ! 0 = ''Student Name,Email,Score,Percentage,Submitted At,Question 1,Question 2''"
    and b: "lines ! 1 = ''\"Jane \"JJ\" Doe\",\"jane@x.org\",\"1\",\"50%\",\"2024-01-03\",\"A\",\"C\"''"
    and c: "lines ! 2 = ''\"Bob\",\"bob@x.org\",\"23\",\"57%\",\"2024-01-02\",\"B\",\"C\"''"
    by blast
  from l obtain x y z where xy: "lines = [x, y, z]"
    by (cases lines; cases "tl lines"; cases "tl (tl lines)") auto
  from e xy a b c show ?thesis by simp
qed

section \<open>Properties of removing a question in the edit flow\<close>

lemma set_delete_eq_id: "set (delete_eq_id i rows) = {r \<in> set rows. question_id r \<noteq> i}"
  by (auto simp: delete_eq_id_def)

lemma EditQuiz_removeQuestion_table:
  "EditQuiz_removeQuestion index rep s = Inr s' \<Longrightarrow> set (questions_table s') \<subseteq> set (questions_table s)"
  by (auto simp: EditQuiz_removeQuestion_def Let_def set_delete_eq_id
      split: if_splits option.splits reply.splits)

lemma edit_step_table: "set (questions_table (edit_step e s)) \<subseteq> set (questions_table s)"
proof (cases e)
  case (SetQuestions f)
  then show ?thesis by simp
next
  case (RemoveQuestion index rep)
  then show ?thesis
    using EditQuiz_removeQuestion_table [of index rep s]
    by (cases "EditQuiz_removeQuestion index rep s") auto
qed

lemma edit_run_table: "set (questions_table (edit_run es s)) \<subseteq> set (questions_table s)"
  unfolding edit_run_def
proof (induction es arbitrary: s)
  case Nil
  then show ?case by simp
next
  case (Cons e es)
  have "set (questions_table (fold edit_step es (edit_step e s)))
        \<subseteq> set (questions_table (edit_step e s))"
    by (rule Cons.IH)
  also have "\<dots> \<subseteq> set (questions_table s)" by (rule edit_step_table)
  finally show ?case by simp
qed

text \<open>
  C10, as claimed: removing a question with a stored id deletes its row from the store
  at once, whatever else holds. When the question is the only one of the quiz the
  handler returns before it reaches the store, and the row stays, even with a store that
  would perform the delete. And a store that refuses the delete answers with an error
  object that the handler does not look at (only a thrown error is caught): the row
  stays in the table while the question leaves the list of the page.
\<close>

theorem EditQuiz_removeQuestion_keeps_stored_row:
  "EditQuiz_removeQuestion 0 Performed
     \<lparr>questions_state =
        [\<lparr>question_text = ''one'', options = [''A'', ''B''], correct_answer = ''A'',
          order_index = 0, question_id = ''a1'', quiz_id = ''z''\<rparr>],
      questions_table =
        [\<lparr>question_text = ''one'', options = [''A'', ''B''], correct_answer = ''A'',
          order_index = 0, question_id = ''a1'', quiz_id = ''z''\<rparr>]\<rparr>
   = Inr \<lparr>questions_state =
        [\<lparr>question_text = ''one'', options = [''A'', ''B''], correct_answer = ''A'',
          order_index = 0, question_id = ''a1'', quiz_id = ''z''\<rparr>],
      questions_table =
        [\<lparr>question_text = ''one'', options = [''A'', ''B''], correct_answer = ''A'',
          order_index = 0, question_id = ''a1'', quiz_id = ''z''\<rparr>]\<rparr>
   \<and> \<not> startsWith ''a1'' ''temp-''
   \<and> EditQuiz_removeQuestion 0 Refused
     \<lparr>questions_state =
        [\<lparr>question_text = ''one'', options = [''A'', ''B''], correct_answer = ''A'',
          order_index = 0, question_id = ''a1'', quiz_id = ''z''\<rparr>,
         \<lparr>question_text = ''two'', options = [''B'', ''C''], correct_answer = ''B'',
          order_index = 1, question_id = ''b2'', quiz_id = ''z''\<rparr>],
      questions_table =
        [\<lparr>question_text = ''one'', options = [''A'', ''B''], correct_answer = ''A'',
          order_index = 0, question_id = ''a1'', quiz_id = ''z''\<rparr>,
         \<lparr>question_text = ''two'', options = [''B'', ''C''], correct_answer = ''B'',
          order_index = 1, question_id = ''b2'', quiz_id = ''z''\<rparr>]\<rparr>
   = Inr \<lparr>questions_state =
        [\<lparr>question_text = ''two'', options = [''B'', ''C''], correct_answer = ''B'',
          order_index = 0, question_id = ''b2'', quiz_id = ''z''\<rparr>],
      questions_table =
        [\<lparr>question_text = ''one'', options = [''A'', ''B''], correct_answer = ''A'',
          order_index = 0, question_id = ''a1'', quiz_id = ''z''\<rparr>,
         \<lparr>question_text = ''two'', options = [''B'', ''C''], correct_answer = ''B'',
          order_index = 1, question_id = ''b2'', quiz_id = ''z''\<rparr>]\<rparr>"
  by (simp add: EditQuiz_removeQuestion_def nth_opt_def startsWith_def filter_index_def
      renumber_def Let_def)

text \<open>
  C10, amended. In the edit flow, \<open>removeQuestion\<close> on a list of exactly one question
  returns with the list and the table as they were, even when the id is a stored one.
  On a list of more than one question, at the position of a question whose id does not
  start with \<open>temp-\<close>, it sends the delete of that row to the store itself, not the later
  save: once the store has performed it, the table has no row with that id, and it has
  none after any further events of a session that never saves. For a question with a
  \<open>temp-\<close> id the table is left as it is.
\<close>

theorem EditQuiz_removeQuestion_deletes_stored_row:
  "(length (questions_state s) = 1 \<longrightarrow> EditQuiz_removeQuestion index rep s = Inr s)
   \<and> (length (questions_state s) \<noteq> 1 \<and> nth_opt (questions_state s) index = Some q \<longrightarrow>
     (if startsWith (question_id q) ''temp-''
      then \<exists>s'. EditQuiz_removeQuestion index rep s = Inr s'
             \<and> questions_table s' = questions_table s
      else \<exists>s'. EditQuiz_removeQuestion index Performed s = Inr s'
             \<and> questions_state s' = renumber (splice1 index (questions_state s))
             \<and> questions_table s' = delete_eq_id (question_id q) (questions_table s)
             \<and> (\<forall>r \<in> set (questions_table s'). question_id r \<noteq> question_id q)
             \<and> (\<forall>es. \<forall>r \<in> set (questions_table (edit_run es s')).
                    question_id r \<noteq> question_id q)))"
proof (intro conjI impI)
  assume "length (questions_state s) = 1"
  then show "EditQuiz_removeQuestion index rep s = Inr s"
    by (simp add: EditQuiz_removeQuestion_def Let_def)
next
  assume "length (questions_state s) \<noteq> 1 \<and> nth_opt (questions_state s) index = Some q"
  then have l: "length (questions_state s) \<noteq> 1"
    and n: "nth_opt (questions_state s) index = Some q"
    by simp_all
  show "if startsWith (question_id q) ''temp-''
      then \<exists>s'. EditQuiz_removeQuestion index rep s = Inr s'
             \<and> questions_table s' = questions_table s
      else \<exists>s'. EditQuiz_removeQuestion index Performed s = Inr s'
             \<and> questions_state s' = renumber (splice1 index (questions_state s))
             \<and> questions_table s' = delete_eq_id (question_id q) (questions_table s)
             \<and> (\<forall>r \<in> set (questions_table s'). question_id r \<noteq> question_id q)
             \<and> (\<forall>es. \<forall>r \<in> set (questions_table (edit_run es s')).
                    question_id r \<noteq> question_id q)"
  proof (cases "startsWith (question_id q) ''temp-''")
    case True
    with l n show ?thesis
      by (simp add: EditQuiz_removeQuestion_def Let_def)
  next
    case False
    let ?s' = "s\<lparr>questions_table := delete_eq_id (question_id q) (questions_table s),
                 questions_state := renumber (splice1 index (questions_state s))\<rparr>"
    have e: "EditQuiz_removeQuestion index Performed s = Inr ?s'"
      using l n False by (simp add: EditQuiz_removeQuestion_def Let_def filter_index_splice)
    have g: "\<forall>r \<in> set (questions_table ?s'). question_id r \<noteq> question_id q"
      by (simp add: set_delete_eq_id)
    have "\<forall>r \<in> set (questions_table (edit_run es ?s')). question_id r \<noteq> question_id q" for es
      using edit_run_table [of es ?s'] g by blast
    with e g False show ?thesis by simp
  qed
qed

theorem EditQuiz_removeQuestion_deletes_stored_row_witness:
  "(\<exists>s'. EditQuiz_removeQuestion 0 Performed
        \<lparr>questions_state =
           [\<lparr>question_text = ''one'', options = [''A'', ''B''], correct_answer = ''A'',
             order_index = 0, question_id = ''a1'', quiz_id = ''z''\<rparr>,
            \<lparr>question_text = ''two'', options = [''B'', ''C''], correct_answer = ''B'',
             order_index = 1, question_id = ''b2'', quiz_id = ''z''\<rparr>],
          questions_table =
           [\<lparr>question_text = ''one'', options = [''A'', ''B''], correct_answer = ''A'',
             order_index = 0, question_id = ''a1'', quiz_id = ''z''\<rparr>,
            \<lparr>question_text = ''two'', options = [''B'', ''C''], correct_answer = ''B'',
             order_index = 1, question_id = ''b2'', quiz_id = ''z''\<rparr>]\<rparr>
      = Inr s'
      \<and> questions_table s' =
           [\<lparr>question_text = ''two'', options = [''B'', ''C''], correct_answer = ''B'',
             order_index = 1, question_id = ''b2'', quiz_id = ''z''\<rparr>]
      \<and> (\<forall>r \<in> set (questions_table
                      (edit_run [SetQuestions (\<lambda>qs. qs @ qs), RemoveQuestion 1 Refused] s')).
            question_id r \<noteq> ''a1''))
   \<and> (\<exists>s'. EditQuiz_removeQuestion 1 Thrown
        \<lparr>questions_state =
           [\<lparr>question_text = ''one'', options = [''A'', ''B''], correct_answer = ''A'',
             order_index = 0, question_id = ''a1'', quiz_id = ''z''\<rparr>,
            \<lparr>question_text = '''', options = ['''', ''''], correct_answer = '''',
             order_index = 1, question_id = ''temp-1700000000000'', quiz_id = ''z''\<rparr>],
          questions_table =
           [\<lparr>question_text = ''one'', options = [''A'', ''B''], correct_answer = ''A'',
             order_index = 0, question_id = ''a1'', quiz_id = ''z''\<rparr>]\<rparr>
      = Inr s'
      \<and> questions_table s' =
           [\<lparr>question_text = ''one'', options = [''A'', ''B''], correct_answer = ''A'',
             order_index = 0, question_id = ''a1'', quiz_id = ''z''\<rparr>])
   \<and> EditQuiz_removeQuestion 0 Performed
        \<lparr>questions_state =
           [\<lparr>question_text = ''one'', options = [''A'', ''B''], correct_answer = ''A'',
             order_index = 0, question_id = ''a1'', quiz_id = ''z''\<rparr>],
          questions_table =
           [\<lparr>question_text = ''one'', options = [''A'', ''B''], correct_answer = ''A'',
             order_index = 0, question_id = ''a1'', quiz_id = ''z''\<rparr>]\<rparr>
      = Inr \<lparr>questions_state =
           [\<lparr>question_text = ''one'', options = [''A'', ''B''], correct_answer = ''A'',
             order_index = 0, question_id = ''a1'', quiz_id = ''z''\<rparr>],
          questions_table =
           [\<lparr>question_text = ''one'', options = [''A'', ''B''], correct_answer = ''A'',
             order_index = 0, question_id = ''a1'', quiz_id = ''z''\<rparr>]\<rparr>"
proof -
  let ?a = "\<lparr>question_text = ''one'', options = [''A'', ''B''], correct_answer = ''A'',
             order_index = 0, question_id = ''a1'', quiz_id = ''z''\<rparr>"
  let ?b = "\<lparr>question_text = ''two'', options = [''B'', ''C''], correct_answer = ''B'',
             order_index = 1, question_id = ''b2'', quiz_id = ''z''\<rparr>"
  let ?t = "\<lparr>question_text = '''', options = ['''', ''''], correct_answer = '''',
             order_index = 1, question_id = ''temp-1700000000000'', quiz_id = ''z''\<rparr>"
  have stored: "\<exists>s'. EditQuiz_removeQuestion 0 Performed
                   \<lparr>questions_state = [?a, ?b], questions_table = [?a, ?b]\<rparr> = Inr s'
      \<and> questions_table s' = [?b]
      \<and> (\<forall>r \<in> set (questions_table
                      (edit_run [SetQuestions (\<lambda>qs. qs @ qs), RemoveQuestion 1 Refused] s')).
            question_id r \<noteq> ''a1'')"
    using EditQuiz_removeQuestion_deletes_stored_row [of "\<lparr>questions_state = [?a, ?b], questions_table = [?a, ?b]\<rparr>" 0 Performed ?a]
    by (auto simp: nth_opt_def startsWith_def delete_eq_id_def)
  have temp: "\<exists>s'. EditQuiz_removeQuestion 1 Thrown
                   \<lparr>questions_state = [?a, ?t], questions_table = [?a]\<rparr> = Inr s'
      \<and> questions_table s' = [?a]"
    using EditQuiz_removeQuestion_deletes_stored_row [of "\<lparr>questions_state = [?a, ?t], questions_table = [?a]\<rparr>" 1 Thrown ?t]
    by (auto simp: nth_opt_def startsWith_def)
  have single: "EditQuiz_removeQuestion 0 Performed
                   \<lparr>questions_state = [?a], questions_table = [?a]\<rparr>
                 = Inr \<lparr>questions_state = [?a], questions_table = [?a]\<rparr>"
    using EditQuiz_removeQuestion_deletes_stored_row [of "\<lparr>questions_state = [?a], questions_table = [?a]\<rparr>" 0 Performed]
    by simp
  from stored temp single show ?thesis by blast
qed

end
